theory Spec2Isabelle
  imports Main "HOL-Library.Word"
begin

unbundle bit_operations_syntax

section \<open>Go values: bytes, strings, formatting\<close>

text \<open>
  A Go \<open>[]byte\<close> is a list of 8-bit words, a Go \<open>string\<close> is an Isabelle \<open>string\<close>
  (a list of 8-bit characters). The conversions \<open>[]byte(s)\<close> and \<open>string(b)\<close> copy the
  bytes unchanged.
\<close>

type_synonym byte = "8 word"

definition bytes_of_string :: "string \<Rightarrow> byte list" where
  "bytes_of_string s = map (\<lambda>c. of_nat (of_char c)) s"

definition string_of_bytes :: "byte list \<Rightarrow> string" where
  "string_of_bytes b = map (\<lambda>w. char_of (unat w)) b"

text \<open>The verb \<open>%d\<close> of package fmt on an \<open>int\<close>.\<close>

fun showNat :: "nat \<Rightarrow> string" where
  "showNat n = (if n < 10 then [char_of (48 + n)]
                else showNat (n div 10) @ [char_of (48 + n mod 10)])"

declare showNat.simps [simp del]

definition showInt :: "int \<Rightarrow> string" where
  "showInt i = (if i < 0 then CHR ''-'' # showNat (nat (- i)) else showNat (nat i))"

definition newline :: string where
  "newline = [CHR 0x0A]"

section \<open>encoding/hex and crypto/subtle, as used by verifySignature\<close>

definition hextable :: string where
  "hextable = ''0123456789abcdef''"

text \<open>\<open>hex.EncodeToString\<close>: two lower-case digits per byte, high nibble first.\<close>

definition EncodeToString :: "byte list \<Rightarrow> string" where
  "EncodeToString src =
     concat (map (\<lambda>v. [hextable ! unat (drop_bit 4 v), hextable ! unat (v AND 0x0f)]) src)"

text \<open>
  \<open>hmac.Equal(a, b)\<close> is \<open>subtle.ConstantTimeCompare(a, b) == 1\<close>: slices of different
  length compare unequal at once; otherwise the loop
  \<open>for i := 0; i < len(x); i++ { v |= x[i] ^ y[i] }\<close> ORs the XOR of every pair of bytes
  into one accumulator and has no exit before the end, and \<open>ConstantTimeByteEq\<close> tests
  the accumulator against 0 by arithmetic on \<open>uint32\<close>. \<open>ctLoop\<close> returns the
  accumulator together with the final value of the index \<open>i\<close>, which is the number of
  byte pairs the loop has read.
\<close>

fun ctLoop :: "byte \<Rightarrow> nat \<Rightarrow> byte list \<Rightarrow> byte list \<Rightarrow> byte \<times> nat" where
  "ctLoop v i (x # xs) (y # ys) = ctLoop (v OR (x XOR y)) (Suc i) xs ys"
| "ctLoop v i _ _ = (v, i)"

definition ConstantTimeByteEq :: "byte \<Rightarrow> byte \<Rightarrow> int" where
  "ConstantTimeByteEq x y = uint (drop_bit 31 ((ucast (x XOR y) :: 32 word) - 1))"

definition ConstantTimeCompare :: "byte list \<Rightarrow> byte list \<Rightarrow> int" where
  "ConstantTimeCompare x y =
     (if length x \<noteq> length y then 0 else ConstantTimeByteEq (fst (ctLoop 0 0 x y)) 0)"


definition hmac_Equal :: "byte list \<Rightarrow> byte list \<Rightarrow> bool" where
  "hmac_Equal mac1 mac2 = (ConstantTimeCompare mac1 mac2 = 1)"

section \<open>net/http headers\<close>

text \<open>
  \<open>http.Header\<close> is \<open>map[string][]string\<close>. It is an association list here; the order of
  the list is the order in which \<open>range\<close> visits the map in the run at hand. \<open>Get\<close>,
  \<open>Set\<close>, \<open>Add\<close> and \<open>Del\<close> canonicalise the key first
  (\<open>textproto.CanonicalMIMEHeaderKey\<close>): a key with a byte that is not a token character
  is left as it is, otherwise the first letter and every letter after a hyphen become
  upper case and all other letters lower case.
\<close>

type_synonym Header = "(string \<times> string list) list"

definition isLower :: "char \<Rightarrow> bool" where
  "isLower c = (97 \<le> (of_char c :: nat) \<and> (of_char c :: nat) \<le> 122)"

definition isUpper :: "char \<Rightarrow> bool" where
  "isUpper c = (65 \<le> (of_char c :: nat) \<and> (of_char c :: nat) \<le> 90)"

definition isDigit :: "char \<Rightarrow> bool" where
  "isDigit c = (48 \<le> (of_char c :: nat) \<and> (of_char c :: nat) \<le> 57)"

definition validHeaderFieldByte :: "char \<Rightarrow> bool" where
  "validHeaderFieldByte c =
     (isLower c \<or> isUpper c \<or> isDigit c \<or>
      c \<in> set (''!#$%&*+-.^_|~'' @ [CHR 0x27, CHR 0x60]))"

fun canonLoop :: "bool \<Rightarrow> string \<Rightarrow> string" where
  "canonLoop upper [] = []"
| "canonLoop upper (c # cs) =
     (let c' = (if upper \<and> isLower c then char_of ((of_char c :: nat) - 32)
                else if \<not> upper \<and> isUpper c then char_of ((of_char c :: nat) + 32)
                else c)
      in c' # canonLoop (c' = CHR ''-'') cs)"

definition CanonicalMIMEHeaderKey :: "string \<Rightarrow> string" where
  "CanonicalMIMEHeaderKey s = (if list_all validHeaderFieldByte s then canonLoop True s else s)"

definition Header_Get :: "Header \<Rightarrow> string \<Rightarrow> string" where
  "Header_Get h key =
     (case map_of h (CanonicalMIMEHeaderKey key) of
        None \<Rightarrow> ''''
      | Some [] \<Rightarrow> ''''
      | Some (v # _) \<Rightarrow> v)"

definition Header_Del :: "string \<Rightarrow> Header \<Rightarrow> Header" where
  "Header_Del key h = filter (\<lambda>kv. fst kv \<noteq> CanonicalMIMEHeaderKey key) h"

fun updateEntry :: "string \<Rightarrow> (string list \<Rightarrow> string list) \<Rightarrow> Header \<Rightarrow> Header" where
  "updateEntry k f [] = [(k, f [])]"
| "updateEntry k f ((k', vs) # h) =
     (if k' = k then (k, f vs) # h else (k', vs) # updateEntry k f h)"

definition Header_Set :: "string \<Rightarrow> string \<Rightarrow> Header \<Rightarrow> Header" where
  "Header_Set key val h = updateEntry (CanonicalMIMEHeaderKey key) (\<lambda>_. [val]) h"

definition Header_Add :: "string \<Rightarrow> string \<Rightarrow> Header \<Rightarrow> Header" where
  "Header_Add key val h = updateEntry (CanonicalMIMEHeaderKey key) (\<lambda>vs. vs @ [val]) h"

section \<open>Requests, responses and the world outside the handler\<close>

text \<open>
  The inbound request: its body is what \<open>io.ReadAll\<close> will return for it, the bytes read
  and the read error if there is one.
\<close>

record Request =
  Method :: string
  RemoteAddr :: string
  Header :: Header
  Body :: "byte list \<times> string option"

text \<open>The request built for the relay, and the relay's response as far as the code reads it.\<close>

record OutboundRequest =
  outMethod :: string
  outURL :: string
  outHeader :: Header
  outBody :: string

record Response =
  StatusCode :: int

text \<open>The struct the body is decoded into (source lines 19 to 23 of both files).\<close>

record PackageT =
  PackageType :: string

record PackageEvent =
  Package :: PackageT

datatype json =
    JNull
  | JBool bool
  | JNumber string
  | JString string
  | JArray "json list"
  | JObject "(string \<times> json) list"

text \<open>
  The process-wide configuration (\<open>webhookSecret\<close>, \<open>relayURL\<close>, set once by \<open>init\<close>)
  and the library and network behaviour that the repository does not contain, taken as
  parameters:
  \<^item> \<open>hmacSHA256 key msg\<close>: the digest \<open>hmac.New(sha256.New, key)\<close> gives after
    \<open>Write(msg)\<close> and \<open>Sum(nil)\<close>;
  \<^item> \<open>parseJSON\<close>: the syntax of encoding/json, the syntax error's text or the parsed
    value, object members in document order;
  \<^item> \<open>typeErrorText value field\<close>: the text of an \<open>UnmarshalTypeError\<close>;
  \<^item> \<open>urlParse\<close>: whether \<open>http.NewRequestWithContext\<close> accepts the URL;
  \<^item> \<open>clientDo\<close>: the pair \<open>(response, err)\<close> that \<open>client.Do\<close> returns; the response is
    \<open>nil\<close> on a transport error.
\<close>

record World =
  webhookSecret :: string
  relayURL :: string
  hmacSHA256 :: "byte list \<Rightarrow> byte list \<Rightarrow> byte list"
  parseJSON :: "byte list \<Rightarrow> string + json"
  typeErrorText :: "string \<Rightarrow> string \<Rightarrow> string"
  urlParse :: "string \<Rightarrow> bool"
  clientDo :: "OutboundRequest \<Rightarrow> Response option \<times> string option"

section \<open>The response writer and the effects of a handler\<close>

text \<open>
  The \<open>http.ResponseWriter\<close> of net/http: \<open>handlerHeader\<close> is the map \<open>Header()\<close>
  returns; the first \<open>WriteHeader\<close> fixes the status and takes a snapshot of the header
  map, later ones are ignored; \<open>Write\<close> sends status 200 first if none was sent and
  drops the data when the status allows no body.
\<close>

record ResponseWriter =
  handlerHeader :: Header
  wroteHeader :: bool
  status :: int
  sentHeader :: Header
  written :: string

text \<open>
  What a handler does to the outside, in order: log lines, reading the inbound body, the
  outbound call, the calls of \<open>WriteHeader\<close> and \<open>Write\<close> it makes (also through
  \<open>http.Error\<close>), closing the relay's response body.
\<close>

datatype event =
    Log string
  | ReadAll
  | Do OutboundRequest
  | WriteHeaderCall int
  | WriteCall string
  | BodyClose

record State =
  writer :: ResponseWriter
  events :: "event list"

datatype outcome = Returned | Panicked string

definition nilDereference :: string where
  "nilDereference = ''runtime error: invalid memory address or nil pointer dereference''"

definition newResponseWriter :: ResponseWriter where
  "newResponseWriter =
     \<lparr>handlerHeader = [], wroteHeader = False, status = 0, sentHeader = [], written = ''''\<rparr>"

definition initial :: State where
  "initial = \<lparr>writer = newResponseWriter, events = []\<rparr>"

definition emit :: "event \<Rightarrow> State \<Rightarrow> State" where
  "emit e s = s\<lparr>events := events s @ [e]\<rparr>"

definition logPrintf :: "string \<Rightarrow> State \<Rightarrow> State" where
  "logPrintf line s = emit (Log line) s"

definition sendHeader :: "int \<Rightarrow> State \<Rightarrow> State" where
  "sendHeader code s =
     (if wroteHeader (writer s) then s
      else s\<lparr>writer := (writer s)\<lparr>wroteHeader := True, status := code,
                                   sentHeader := handlerHeader (writer s)\<rparr>\<rparr>)"

definition WriteHeader :: "int \<Rightarrow> State \<Rightarrow> State" where
  "WriteHeader code s = sendHeader code (emit (WriteHeaderCall code) s)"

definition bodyAllowedForStatus :: "int \<Rightarrow> bool" where
  "bodyAllowedForStatus code =
     (if 100 \<le> code \<and> code \<le> 199 then False
      else if code = 204 then False
      else if code = 304 then False
      else True)"

definition Write :: "string \<Rightarrow> State \<Rightarrow> State" where
  "Write data s =
     (let s = sendHeader 200 (emit (WriteCall data) s)
      in if data = [] then s
         else if bodyAllowedForStatus (status (writer s))
              then s\<lparr>writer := (writer s)\<lparr>written := written (writer s) @ data\<rparr>\<rparr>
              else s)"

definition setHeaderMap :: "(Header \<Rightarrow> Header) \<Rightarrow> State \<Rightarrow> State" where
  "setHeaderMap f s = s\<lparr>writer := (writer s)\<lparr>handlerHeader := f (handlerHeader (writer s))\<rparr>\<rparr>"

text \<open>\<open>http.Error\<close>: plain-text headers, the status, then the message and a newline.\<close>

definition http_Error :: "string \<Rightarrow> int \<Rightarrow> State \<Rightarrow> State" where
  "http_Error msg code s =
     (let s = setHeaderMap (Header_Del ''Content-Length'') s;
          s = setHeaderMap (Header_Set ''Content-Type'' ''text/plain; charset=utf-8'') s;
          s = setHeaderMap (Header_Set ''X-Content-Type-Options'' ''nosniff'') s;
          s = WriteHeader code s
      in Write (msg @ newline) s)"

abbreviation StatusOK :: int where "StatusOK \<equiv> 200"
abbreviation StatusNoContent :: int where "StatusNoContent \<equiv> 204"
abbreviation StatusBadRequest :: int where "StatusBadRequest \<equiv> 400"
abbreviation StatusUnauthorized :: int where "StatusUnauthorized \<equiv> 401"
abbreviation StatusBadGateway :: int where "StatusBadGateway \<equiv> 502"

section \<open>encoding/json decoding into PackageEvent\<close>

text \<open>
  \<open>json.Unmarshal(data, &event)\<close> for the struct above and its tags. A syntax error is
  returned before anything is stored. Otherwise each object member whose key is the
  field's name, exactly or after case folding, is decoded into the field and every other
  member is skipped; \<open>null\<close> leaves a field as it is; a value of the wrong kind records an
  \<open>UnmarshalTypeError\<close> (the first one is the error returned) and decoding goes on.

  The case folding of encoding/json maps every rune to the least rune of its Unicode
  simple-folding orbit: an ASCII letter to its upper case, the Kelvin sign (UTF-8
  \<open>E2 84 AA\<close>) to \<open>K\<close>, the long s (UTF-8 \<open>C5 BF\<close>) to \<open>S\<close>, and every other
  rune to a rune outside ASCII. \<open>foldName\<close> does the first three and keeps all other
  bytes, which is the same as far as equality with the folding of an ASCII name goes;
  the two field names here are ASCII.
\<close>

definition foldByte :: "char \<Rightarrow> char" where
  "foldByte c = (if isLower c then char_of ((of_char c :: nat) - 32) else c)"

fun foldName :: "string \<Rightarrow> string" where
  "foldName (c # d # e # cs) =
     (if c = CHR 0xE2 \<and> d = CHR 0x84 \<and> e = CHR 0xAA then CHR ''K'' # foldName cs
      else if c = CHR 0xC5 \<and> d = CHR 0xBF then CHR ''S'' # foldName (e # cs)
      else foldByte c # foldName (d # e # cs))"
| "foldName [c, d] =
     (if c = CHR 0xC5 \<and> d = CHR 0xBF then [CHR ''S''] else foldByte c # foldName [d])"
| "foldName [c] = [foldByte c]"
| "foldName [] = []"

definition isASCII :: "char \<Rightarrow> bool" where
  "isASCII c = ((of_char c :: nat) < 128)"

definition fieldMatch :: "string \<Rightarrow> string \<Rightarrow> bool" where
  "fieldMatch name key = (key = name \<or> foldName key = foldName name)"

definition saveError :: "string \<Rightarrow> string option \<Rightarrow> string option" where
  "saveError e saved = (case saved of None \<Rightarrow> Some e | Some e0 \<Rightarrow> Some e0)"

fun storeString :: "World \<Rightarrow> string \<Rightarrow> json \<Rightarrow> string option \<times> string \<Rightarrow> string option \<times> string" where
  "storeString W field JNull (err, cur) = (err, cur)"
| "storeString W field (JString s) (err, cur) = (err, s)"
| "storeString W field (JBool b) (err, cur) = (saveError (typeErrorText W ''bool'' field) err, cur)"
| "storeString W field (JNumber n) (err, cur) = (saveError (typeErrorText W ''number'' field) err, cur)"
| "storeString W field (JArray a) (err, cur) = (saveError (typeErrorText W ''array'' field) err, cur)"
| "storeString W field (JObject m) (err, cur) = (saveError (typeErrorText W ''object'' field) err, cur)"

fun storePackage :: "World \<Rightarrow> json \<Rightarrow> string option \<times> PackageT \<Rightarrow> string option \<times> PackageT" where
  "storePackage W JNull (err, cur) = (err, cur)"
| "storePackage W (JObject m) (err, cur) =
     foldl (\<lambda>acc kv.
              if fieldMatch ''package_type'' (fst kv)
              then (case storeString W ''package.package_type'' (snd kv) (fst acc, PackageType (snd acc)) of
                      (e, t) \<Rightarrow> (e, (snd acc)\<lparr>PackageType := t\<rparr>))
              else acc)
           (err, cur) m"
| "storePackage W (JBool b) (err, cur) = (saveError (typeErrorText W ''bool'' ''package'') err, cur)"
| "storePackage W (JNumber n) (err, cur) = (saveError (typeErrorText W ''number'' ''package'') err, cur)"
| "storePackage W (JString s) (err, cur) = (saveError (typeErrorText W ''string'' ''package'') err, cur)"
| "storePackage W (JArray a) (err, cur) = (saveError (typeErrorText W ''array'' ''package'') err, cur)"

fun storeEvent :: "World \<Rightarrow> json \<Rightarrow> string option \<times> PackageEvent \<Rightarrow> string option \<times> PackageEvent" where
  "storeEvent W JNull (err, cur) = (err, cur)"
| "storeEvent W (JObject m) (err, cur) =
     foldl (\<lambda>acc kv.
              if fieldMatch ''package'' (fst kv)
              then (case storePackage W (snd kv) (fst acc, Package (snd acc)) of
                      (e, p) \<Rightarrow> (e, (snd acc)\<lparr>Package := p\<rparr>))
              else acc)
           (err, cur) m"
| "storeEvent W (JBool b) (err, cur) = (saveError (typeErrorText W ''bool'' '''') err, cur)"
| "storeEvent W (JNumber n) (err, cur) = (saveError (typeErrorText W ''number'' '''') err, cur)"
| "storeEvent W (JString s) (err, cur) = (saveError (typeErrorText W ''string'' '''') err, cur)"
| "storeEvent W (JArray a) (err, cur) = (saveError (typeErrorText W ''array'' '''') err, cur)"

definition zeroEvent :: PackageEvent where
  "zeroEvent = \<lparr>Package = \<lparr>PackageType = ''''\<rparr>\<rparr>"

definition unmarshalValue :: "World \<Rightarrow> json \<Rightarrow> string + PackageEvent" where
  "unmarshalValue W v =
     (case storeEvent W v (None, zeroEvent) of
        (Some e, _) \<Rightarrow> Inl e
      | (None, event) \<Rightarrow> Inr event)"

definition json_Unmarshal :: "World \<Rightarrow> byte list \<Rightarrow> string + PackageEvent" where
  "json_Unmarshal W data =
     (case parseJSON W data of
        Inl syntaxError \<Rightarrow> Inl syntaxError
      | Inr v \<Rightarrow> unmarshalValue W v)"

text \<open>
  \<open>http.NewRequestWithContext\<close>: \<open>nil\<close> and an error when the URL does not parse; the
  code drops the error.
\<close>

definition http_NewRequestWithContext ::
    "World \<Rightarrow> string \<Rightarrow> string \<Rightarrow> string \<Rightarrow> OutboundRequest option" where
  "http_NewRequestWithContext W method url body =
     (if urlParse W url
      then Some \<lparr>outMethod = method, outURL = url, outHeader = [], outBody = body\<rparr>
      else None)"

section \<open>The functions both source files share\<close>

text \<open>
  \<open>logRequest\<close>, \<open>readRequest\<close>, \<open>verifySignature\<close> and \<open>respondError\<close> have the same
  text in src/github_webhook_filter_server.go and in src/unnamed/part_000.
\<close>

definition logRequest :: "Header \<Rightarrow> State \<Rightarrow> string \<times> State" where
  "logRequest headers s =
     (let requestId = Header_Get headers ''X-GitHub-Delivery'';
          eventType = Header_Get headers ''X-GitHub-Event''
      in if requestId = '''' \<or> eventType = ''''
         then (''Either missing requestId: ('' @ requestId @ '') or eventType: ('' @ eventType
                 @ '') and will not process request further'', s)
         else ('''', logPrintf (''Processing request with id: ('' @ requestId
                 @ '') and event type: ('' @ eventType @ '')'' @ newline) s))"

definition readRequest :: "byte list \<times> string option \<Rightarrow> State \<Rightarrow> byte list \<times> State" where
  "readRequest reader s =
     (let s = emit ReadAll s
      in case reader of
           (requestBody, None) \<Rightarrow> (requestBody, s)
         | (requestBody, Some error) \<Rightarrow>
             (requestBody, logPrintf (''Error when reading request body: '' @ error) s))"

definition verifySignature :: "World \<Rightarrow> string \<Rightarrow> byte list \<Rightarrow> bool" where
  "verifySignature W headerSignature requestBodyToHash =
     (let mac = hmacSHA256 W (bytes_of_string (webhookSecret W)) requestBodyToHash;
          calculated = ''sha256='' @ EncodeToString mac
      in hmac_Equal (bytes_of_string calculated) (bytes_of_string headerSignature))"

definition respondError :: "string \<Rightarrow> int \<Rightarrow> State \<Rightarrow> State" where
  "respondError msg code s = http_Error msg code (logPrintf msg s)"

section \<open>The handler of src/unnamed/part_000\<close>

definition handleHeadAndGet :: "Request \<Rightarrow> State \<Rightarrow> State" where
  "handleHeadAndGet request s =
     WriteHeader StatusOK
       (foldl (\<lambda>s kv. foldl (\<lambda>s val. logPrintf (''Header: '' @ fst kv @ '' = '' @ val) s)
                             s (snd kv))
              s (Header request))"

definition successBody :: string where
  "successBody = ''package_type:CONTAINER passed the filter on Github Webhook Filter server hosted at onrender.com. Forwarded to relay.''"

text \<open>
  Source lines 101 to 145. After a failed \<open>client.Do\<close> the code does not return: it goes
  on to \<open>defer httpResponse.Body.Close()\<close>, which reads a field of the \<open>nil\<close> response
  and panics. \<open>newRequest\<close> is \<open>nil\<close> when the relay URL does not parse, and
  \<open>newRequest.Header.Set\<close> panics then. The deferred \<open>Close\<close> runs when the function
  returns.
\<close>

definition handleRequest :: "World \<Rightarrow> Request \<Rightarrow> State \<Rightarrow> outcome \<times> State" where
  "handleRequest W request s0 =
     (case readRequest (Body request) s0 of (requestBody, s) \<Rightarrow>
      let headerSignature = Header_Get (Header request) ''X-Hub-Signature-256''
      in if \<not> verifySignature W headerSignature requestBody
         then (Returned, respondError ''Invalid Signature'' StatusUnauthorized s)
         else
           let s = logPrintf (''Signature Match! '' @ headerSignature @ newline) s
           in case json_Unmarshal W requestBody of
                Inl err \<Rightarrow>
                  (Returned, respondError (''Failed to parse JSON: '' @ err) StatusBadRequest s)
              | Inr event \<Rightarrow>
                  let packageType = PackageType (Package event)
                  in if packageType \<noteq> ''CONTAINER''
                     then
                       let logLine = ''Filtered out package_type '' @ packageType
                                       @ ''! No forward to relay'';
                           s = logPrintf logLine s;
                           s = setHeaderMap (Header_Add ''Message'' logLine) s;
                           s = WriteHeader StatusNoContent s
                       in (Returned, s)
                     else
                       let s = logPrintf ''package_type CONTAINER passed filter! Sending to relay'' s
                       in case http_NewRequestWithContext W ''POST'' (relayURL W)
                                 (string_of_bytes requestBody) of
                            None \<Rightarrow> (Panicked nilDereference, s)
                          | Some newRequest \<Rightarrow>
                              let newRequest = newRequest\<lparr>outHeader :=
                                    Header_Set ''User-Agent'' ''Go WebHook Filter'' (outHeader newRequest)\<rparr>;
                                  newRequest = newRequest\<lparr>outHeader :=
                                    Header_Set ''Content-Type'' ''application/json'' (outHeader newRequest)\<rparr>;
                                  s = emit (Do newRequest) s
                              in case clientDo W newRequest of (httpResponse, err) \<Rightarrow>
                                 let s = (case err of
                                            None \<Rightarrow> s
                                          | Some e \<Rightarrow>
                                              respondError (''Error sending request: '' @ e @ newline)
                                                StatusBadGateway s)
                                 in case httpResponse of
                                      None \<Rightarrow> (Panicked nilDereference, s)
                                    | Some httpResponse \<Rightarrow>
                                        let s = logPrintf (''Downstream relay responded with code: ''
                                                  @ showInt (StatusCode httpResponse)) s;
                                            statusCode = StatusCode httpResponse;
                                            s = (if statusCode < 200 \<or> statusCode \<ge> 300
                                                 then http_Error (''Error - Relay returned status: ''
                                                        @ showInt statusCode) StatusBadGateway s
                                                 else s);
                                            s = Write successBody s;
                                            s = WriteHeader StatusOK s;
                                            s = emit BodyClose s
                                        in (Returned, s))"

text \<open>
  Source lines 56 to 74. The deferred function logs the two closing lines when the
  handler returns and also when it panics.
\<close>

definition handler :: "World \<Rightarrow> Request \<Rightarrow> State \<Rightarrow> outcome \<times> State" where
  "handler W request s0 =
     (let s = logPrintf ''********************'' s0;
          s = logPrintf (''Received '' @ Method request @ '' request from '' @ RemoteAddr request) s
      in case (if Method request = ''HEAD'' \<or> Method request = ''GET''
               then (Returned, handleHeadAndGet request s)
               else case logRequest (Header request) s of (err, s) \<Rightarrow>
                      if err \<noteq> ''''
                      then (Returned, respondError err StatusBadRequest s)
                      else handleRequest W request s)
         of (out, s) \<Rightarrow>
           let s = logPrintf ''Finished processing request'' s;
               s = logPrintf ''********************'' s
           in (out, s))"

section \<open>The handler of src/github_webhook_filter_server.go\<close>

text \<open>
  Source lines 68 to 109: as above up to the filter, which answers through
  \<open>respondError\<close> with status 400; no confirmation body is written after the relay's
  response.
\<close>

definition handleRequest_server :: "World \<Rightarrow> Request \<Rightarrow> State \<Rightarrow> outcome \<times> State" where
  "handleRequest_server W request s0 =
     (case readRequest (Body request) s0 of (requestBody, s) \<Rightarrow>
      let headerSignature = Header_Get (Header request) ''X-Hub-Signature-256''
      in if \<not> verifySignature W headerSignature requestBody
         then (Returned, respondError ''Invalid Signature'' StatusUnauthorized s)
         else
           let s = logPrintf (''Signature Match! '' @ headerSignature @ newline) s
           in case json_Unmarshal W requestBody of
                Inl err \<Rightarrow>
                  (Returned, respondError (''Failed to parse JSON: '' @ err) StatusBadRequest s)
              | Inr event \<Rightarrow>
                  let ptype = PackageType (Package event)
                  in if ptype \<noteq> ''CONTAINER''
                     then
                       let logLine = ''Filtered out package_type '' @ ptype
                                       @ ''! No forward to relay''
                       in (Returned, respondError logLine StatusBadRequest s)
                     else
                       let s = logPrintf ''Request passed filter! Sending to relay'' s
                       in case http_NewRequestWithContext W ''POST'' (relayURL W)
                                 (string_of_bytes requestBody) of
                            None \<Rightarrow> (Panicked nilDereference, s)
                          | Some req \<Rightarrow>
                              let req = req\<lparr>outHeader :=
                                    Header_Set ''User-Agent'' ''Go WebHook Filter'' (outHeader req)\<rparr>;
                                  req = req\<lparr>outHeader :=
                                    Header_Set ''Content-Type'' ''application/json'' (outHeader req)\<rparr>;
                                  s = emit (Do req) s
                              in case clientDo W req of (httpResponse, err) \<Rightarrow>
                                 let s = (case err of
                                            None \<Rightarrow> s
                                          | Some e \<Rightarrow>
                                              respondError (''Error sending request: '' @ e @ newline)
                                                StatusBadGateway s)
                                 in case httpResponse of
                                      None \<Rightarrow> (Panicked nilDereference, s)
                                    | Some httpResponse \<Rightarrow>
                                        let s = logPrintf (''Downstream relay responded with code: ''
                                                  @ showInt (StatusCode httpResponse)) s;
                                            statusCode = StatusCode httpResponse;
                                            s = (if statusCode < 200 \<or> statusCode \<ge> 300
                                                 then http_Error (''Error - Relay returned status: ''
                                                        @ showInt statusCode) StatusBadGateway s
                                                 else s);
                                            s = WriteHeader StatusOK s;
                                            s = emit BodyClose s
                                        in (Returned, s))"

text \<open>
  Source lines 56 to 66: no branch on the method; the closing log lines are plain
  statements after \<open>handleRequest\<close>, so a panic skips them.
\<close>

definition handler_server :: "World \<Rightarrow> Request \<Rightarrow> State \<Rightarrow> outcome \<times> State" where
  "handler_server W request s0 =
     (let s = logPrintf ''********************'' s0;
          s = logPrintf (''Received '' @ Method request @ '' request from '' @ RemoteAddr request) s
      in case logRequest (Header request) s of (err, s) \<Rightarrow>
           if err \<noteq> ''''
           then (Returned, respondError err StatusBadRequest s)
           else case handleRequest_server W request s of
                  (Panicked p, s) \<Rightarrow> (Panicked p, s)
                | (Returned, s) \<Rightarrow>
                    let s = logPrintf ''Finished processing request'' s;
                        s = logPrintf ''********************'' s
                    in (Returned, s))"

section \<open>Observations on a run\<close>

text \<open>The outbound requests a run issued, in order, and the calls it made on the writer.\<close>

fun forwards :: "event list \<Rightarrow> OutboundRequest list" where
  "forwards [] = []"
| "forwards (Do q # es) = q # forwards es"
| "forwards (e # es) = forwards es"

fun writerCalls :: "event list \<Rightarrow> event list" where
  "writerCalls [] = []"
| "writerCalls (WriteHeaderCall c # es) = WriteHeaderCall c # writerCalls es"
| "writerCalls (WriteCall d # es) = WriteCall d # writerCalls es"
| "writerCalls (e # es) = writerCalls es"

fun logLines :: "event list \<Rightarrow> string list" where
  "logLines [] = []"
| "logLines (Log l # es) = l # logLines es"
| "logLines (e # es) = logLines es"

text \<open>What the caller is answered and what went to the relay, read off a finished run.\<close>

definition reply :: "outcome \<times> State \<Rightarrow> ResponseWriter" where
  "reply res = writer (snd res)"

definition trace :: "outcome \<times> State \<Rightarrow> event list" where
  "trace res = events (snd res)"

definition sent :: "outcome \<times> State \<Rightarrow> OutboundRequest list" where
  "sent res = forwards (events (snd res))"

text \<open>The events of \<open>readRequest\<close> and of the loop in \<open>handleHeadAndGet\<close>.\<close>

definition readEvents :: "byte list \<times> string option \<Rightarrow> event list" where
  "readEvents reader =
     (case snd reader of
        None \<Rightarrow> [ReadAll]
      | Some error \<Rightarrow> [ReadAll, Log (''Error when reading request body: '' @ error)])"

definition headerLogs :: "Header \<Rightarrow> event list" where
  "headerLogs h =
     concat (map (\<lambda>kv. map (\<lambda>val. Log (''Header: '' @ fst kv @ '' = '' @ val)) (snd kv)) h)"

text \<open>
  The outbound call as the spec describes it: a POST to the relay URL with the fixed
  user agent, the JSON content type and the raw body.
\<close>

definition relayRequest :: "World \<Rightarrow> byte list \<Rightarrow> OutboundRequest" where
  "relayRequest W B =
     \<lparr>outMethod = ''POST'', outURL = relayURL W,
      outHeader = [(''User-Agent'', [''Go WebHook Filter'']),
                   (''Content-Type'', [''application/json''])],
      outBody = string_of_bytes B\<rparr>"

text \<open>
  A JSON document cut down to what the spec says is read: the members named \<open>package\<close>
  of the top-level object and, inside their object values, the members named
  \<open>package_type\<close>.
\<close>

fun prunePackageNamed :: "json \<Rightarrow> json" where
  "prunePackageNamed (JObject m) = JObject (filter (\<lambda>kv. fst kv = ''package_type'') m)"
| "prunePackageNamed v = v"

fun pruneNamed :: "json \<Rightarrow> json" where
  "pruneNamed (JObject m) =
     JObject (map (\<lambda>kv. (fst kv, prunePackageNamed (snd kv)))
                  (filter (\<lambda>kv. fst kv = ''package'') m))"
| "pruneNamed v = v"

text \<open>
  The same with names compared without regard to case: the members whose key folds to
  \<open>PACKAGE\<close> and, inside their object values, those whose key folds to
  \<open>PACKAGE_TYPE\<close>.
\<close>

fun prunePackageFolded :: "json \<Rightarrow> json" where
  "prunePackageFolded (JObject m) =
     JObject (filter (\<lambda>kv. foldName (fst kv) = ''PACKAGE_TYPE'') m)"
| "prunePackageFolded v = v"

fun pruneFolded :: "json \<Rightarrow> json" where
  "pruneFolded (JObject m) =
     JObject (map (\<lambda>kv. (fst kv, prunePackageFolded (snd kv)))
                  (filter (\<lambda>kv. foldName (fst kv) = ''PACKAGE'') m))"
| "pruneFolded v = v"

text \<open>The writer after one \<open>http.Error\<close> on a fresh response.\<close>

definition plainTextHeader :: Header where
  "plainTextHeader = [(''Content-Type'', [''text/plain; charset=utf-8'']),
                      (''X-Content-Type-Options'', [''nosniff''])]"

definition errorReply :: "int \<Rightarrow> string \<Rightarrow> ResponseWriter" where
  "errorReply code msg =
     \<lparr>handlerHeader = plainTextHeader, wroteHeader = True, status = code,
      sentHeader = plainTextHeader, written = msg @ newline\<rparr>"


text \<open>
  The value the spec compares the header with: the tag \<open>sha256=\<close> followed by the
  lower-case hex encoding of the HMAC-SHA256 of the body under the shared secret.
\<close>

definition signatureFor :: "World \<Rightarrow> byte list \<Rightarrow> string" where
  "signatureFor W B =
     ''sha256='' @ EncodeToString (hmacSHA256 W (bytes_of_string (webhookSecret W)) B)"

section \<open>A concrete world and concrete requests\<close>

text \<open>
  The examples below run the handlers on real deliveries. The secret is \<open>s3cret\<close>; the
  digests are the values of HMAC-SHA256 under that key at the bodies the examples use
  (each can be recomputed with any HMAC-SHA256 tool), and the parser is encoding/json's
  at the same bodies.
\<close>

definition demoSecret :: string where
  "demoSecret = ''s3cret''"

definition bodyContainer :: string where
  \<open>bodyContainer = ''{"package":{"package_type":"CONTAINER"}}''\<close>

definition bodyMaven :: string where
  \<open>bodyMaven = ''{"package":{"package_type":"MAVEN"}}''\<close>

definition bodyBroken :: string where
  \<open>bodyBroken = ''{"package":''\<close>

definition bodyNumber :: string where
  \<open>bodyNumber = ''{"package":{"package_type":7}}''\<close>

definition bodyExtra :: string where
  \<open>bodyExtra = ''{"action":"published","package":{"id":1,"package_type":"CONTAINER"}}''\<close>

definition bodyEmpty :: string where
  \<open>bodyEmpty = ''{}''\<close>

text \<open>\<open>bodyContainer\<close> with the lowest bit of its first byte flipped.\<close>

definition bodyFlipped :: string where
  \<open>bodyFlipped = ''z"package":{"package_type":"CONTAINER"}}''\<close>

text \<open>The CONTAINER delivery with its two member names in another case.\<close>

definition bodyUpper :: string where
  \<open>bodyUpper = ''{"PACKAGE":{"Package_Type":"CONTAINER"}}''\<close>

definition sigContainer :: string where
  "sigContainer = ''sha256=6edb80ff1269aba86c74256062cbf12e6ce86918d7e7f8dd52cc5a51f826cb6d''"

definition sigMaven :: string where
  "sigMaven = ''sha256=d08676ab96e873662a029f851d668f6e983c67c5d10167b802d5e4ac753510e9''"

definition sigBroken :: string where
  "sigBroken = ''sha256=be3165f053552b5cc441360c04d422384b553b7b3aa29b4b96842f732b28fb34''"

definition sigNumber :: string where
  "sigNumber = ''sha256=44c7d0772b7be6b3bd7f034deb8982b6bdbe8d6a03552495c9c8a5af80f1157b''"

definition sigExtra :: string where
  "sigExtra = ''sha256=5bdb3a2d3c5a779ecb0a269fa43fe72b4645c634f12085a246e88a8131366359''"

definition sigEmpty :: string where
  "sigEmpty = ''sha256=adbde1ce40c89c14215687d5d762a47df6dfaefcfad61e2e86718ffc8498571b''"

definition sigUpper :: string where
  "sigUpper = ''sha256=b0469cee8bdd09530cc161f4a90f0cb7355a22ea93288dd4ebe41892f2b7e250''"

definition demoHmac :: "byte list \<Rightarrow> byte list \<Rightarrow> byte list" where
  "demoHmac key msg =
     (if key \<noteq> bytes_of_string demoSecret then []
      else if msg = bytes_of_string bodyContainer then
        [0x6e, 0xdb, 0x80, 0xff, 0x12, 0x69, 0xab, 0xa8, 0x6c, 0x74, 0x25, 0x60, 0x62, 0xcb, 0xf1, 0x2e,
         0x6c, 0xe8, 0x69, 0x18, 0xd7, 0xe7, 0xf8, 0xdd, 0x52, 0xcc, 0x5a, 0x51, 0xf8, 0x26, 0xcb, 0x6d]
      else if msg = bytes_of_string bodyMaven then
        [0xd0, 0x86, 0x76, 0xab, 0x96, 0xe8, 0x73, 0x66, 0x2a, 0x02, 0x9f, 0x85, 0x1d, 0x66, 0x8f, 0x6e,
         0x98, 0x3c, 0x67, 0xc5, 0xd1, 0x01, 0x67, 0xb8, 0x02, 0xd5, 0xe4, 0xac, 0x75, 0x35, 0x10, 0xe9]
      else if msg = bytes_of_string bodyBroken then
        [0xbe, 0x31, 0x65, 0xf0, 0x53, 0x55, 0x2b, 0x5c, 0xc4, 0x41, 0x36, 0x0c, 0x04, 0xd4, 0x22, 0x38,
         0x4b, 0x55, 0x3b, 0x7b, 0x3a, 0xa2, 0x9b, 0x4b, 0x96, 0x84, 0x2f, 0x73, 0x2b, 0x28, 0xfb, 0x34]
      else if msg = bytes_of_string bodyNumber then
        [0x44, 0xc7, 0xd0, 0x77, 0x2b, 0x7b, 0xe6, 0xb3, 0xbd, 0x7f, 0x03, 0x4d, 0xeb, 0x89, 0x82, 0xb6,
         0xbd, 0xbe, 0x8d, 0x6a, 0x03, 0x55, 0x24, 0x95, 0xc9, 0xc8, 0xa5, 0xaf, 0x80, 0xf1, 0x15, 0x7b]
      else if msg = bytes_of_string bodyExtra then
        [0x5b, 0xdb, 0x3a, 0x2d, 0x3c, 0x5a, 0x77, 0x9e, 0xcb, 0x0a, 0x26, 0x9f, 0xa4, 0x3f, 0xe7, 0x2b,
         0x46, 0x45, 0xc6, 0x34, 0xf1, 0x20, 0x85, 0xa2, 0x46, 0xe8, 0x8a, 0x81, 0x31, 0x36, 0x63, 0x59]
      else if msg = bytes_of_string bodyEmpty then
        [0xad, 0xbd, 0xe1, 0xce, 0x40, 0xc8, 0x9c, 0x14, 0x21, 0x56, 0x87, 0xd5, 0xd7, 0x62, 0xa4, 0x7d,
         0xf6, 0xdf, 0xae, 0xfc, 0xfa, 0xd6, 0x1e, 0x2e, 0x86, 0x71, 0x8f, 0xfc, 0x84, 0x98, 0x57, 0x1b]
      else if msg = bytes_of_string bodyUpper then
        [0xb0, 0x46, 0x9c, 0xee, 0x8b, 0xdd, 0x09, 0x53, 0x0c, 0xc1, 0x61, 0xf4, 0xa9, 0x0f, 0x0c, 0xb7,
         0x35, 0x5a, 0x22, 0xea, 0x93, 0x28, 0x8d, 0xd4, 0xeb, 0xe4, 0x18, 0x92, 0xf2, 0xb7, 0xe2, 0x50]
      else if msg = bytes_of_string bodyFlipped then
        [0x23, 0x55, 0x6a, 0x10, 0x26, 0x39, 0x3b, 0xdf, 0x43, 0x44, 0x1f, 0xb6, 0x7d, 0x25, 0x98, 0x93,
         0x57, 0x82, 0xcc, 0xc6, 0xb1, 0x5f, 0xfc, 0x4c, 0xcf, 0x06, 0x34, 0xab, 0xc5, 0x35, 0x40, 0x0e]
      else [])"

definition demoParse :: "byte list \<Rightarrow> string + json" where
  "demoParse data =
     (if data = bytes_of_string bodyContainer then
        Inr (JObject [(''package'', JObject [(''package_type'', JString ''CONTAINER'')])])
      else if data = bytes_of_string bodyMaven then
        Inr (JObject [(''package'', JObject [(''package_type'', JString ''MAVEN'')])])
      else if data = bytes_of_string bodyNumber then
        Inr (JObject [(''package'', JObject [(''package_type'', JNumber ''7'')])])
      else if data = bytes_of_string bodyExtra then
        Inr (JObject [(''action'', JString ''published''),
                      (''package'', JObject [(''id'', JNumber ''1''),
                                             (''package_type'', JString ''CONTAINER'')])])
      else if data = bytes_of_string bodyEmpty then Inr (JObject [])
      else if data = bytes_of_string bodyUpper then
        Inr (JObject [(''PACKAGE'', JObject [(''Package_Type'', JString ''CONTAINER'')])])
      else if data = bytes_of_string bodyBroken then Inl ''unexpected end of JSON input''
      else Inl ''invalid character'')"

definition demoTypeError :: "string \<Rightarrow> string \<Rightarrow> string" where
  "demoTypeError val field =
     (if field = ''package.package_type'' then
        ''json: cannot unmarshal '' @ val
          @ '' into Go struct field .package.package_type of type string''
      else if field = ''package'' then
        ''json: cannot unmarshal '' @ val
          @ '' into Go struct field PackageEvent.package of type struct { PackageType string ''
          @ [CHR 0x22] @ ''json:'' @ [CHR 0x5C, CHR 0x22] @ ''package_type''
          @ [CHR 0x5C, CHR 0x22, CHR 0x22] @ '' }''
      else
        ''json: cannot unmarshal '' @ val @ '' into Go value of type main.PackageEvent'')"

definition demoURL :: string where
  "demoURL = ''https://relay.example/hook''"

definition demoWorld :: World where
  "demoWorld =
     \<lparr>webhookSecret = demoSecret, relayURL = demoURL, hmacSHA256 = demoHmac,
      parseJSON = demoParse, typeErrorText = demoTypeError,
      urlParse = (\<lambda>u. u = demoURL),
      clientDo = (\<lambda>q. (Some \<lparr>StatusCode = 200\<rparr>, None))\<rparr>"

text \<open>The same world with a relay that answers 500, and with one that cannot be reached.\<close>

definition relay500 :: World where
  "relay500 = demoWorld\<lparr>clientDo := (\<lambda>q. (Some \<lparr>StatusCode = 500\<rparr>, None))\<rparr>"

definition relayDown :: World where
  "relayDown = demoWorld\<lparr>clientDo :=
     (\<lambda>q. (None, Some ''Post \"https://relay.example/hook\": dial tcp: connection refused''))\<rparr>"


text \<open>
  A delivery as the server hands it to the handler: header keys in canonical form, the
  body read without error.
\<close>

definition delivery :: "string \<Rightarrow> string \<Rightarrow> string \<Rightarrow> Request" where
  "delivery method signature body =
     \<lparr>Method = method, RemoteAddr = ''192.0.2.7:50412'',
      Header = [(''Content-Type'', [''application/json'']),
                (''X-Github-Delivery'', [''abc'']),
                (''X-Github-Event'', [''package'']),
                (''X-Hub-Signature-256'', [signature])],
      Body = (bytes_of_string body, None)\<rparr>"

text \<open>A probe: no webhook headers and no body.\<close>

definition probe :: "string \<Rightarrow> Request" where
  "probe method =
     \<lparr>Method = method, RemoteAddr = ''192.0.2.7:50412'',
      Header = [(''User-Agent'', [''curl/8.5.0'']), (''Accept'', [''*/*''])],
      Body = ([], None)\<rparr>"

text \<open>A delivery with a valid signature and no delivery identifier.\<close>

definition noDelivery :: Request where
  "noDelivery =
     \<lparr>Method = ''POST'', RemoteAddr = ''192.0.2.7:50412'',
      Header = [(''X-Github-Event'', [''package'']), (''X-Hub-Signature-256'', [sigMaven])],
      Body = (bytes_of_string bodyMaven, None)\<rparr>"

text \<open>A delivery without a signature header.\<close>

definition unsignedDelivery :: Request where
  "unsignedDelivery =
     \<lparr>Method = ''POST'', RemoteAddr = ''192.0.2.7:50412'',
      Header = [(''X-Github-Delivery'', [''abc'']), (''X-Github-Event'', [''package''])],
      Body = (bytes_of_string bodyContainer, None)\<rparr>"

section \<open>Bytes, hex digits and the constant-time comparison\<close>

lemma string_of_bytes_of_string: "string_of_bytes (bytes_of_string s) = s"
  unfolding string_of_bytes_def bytes_of_string_def
  by (induction s) (simp_all add: unat_of_nat)

lemma byte_of_char_of_byte: "(of_nat (of_char (char_of (unat (w::byte)))) :: byte) = w"
proof -
  have "unat w < 256" using unsigned_less [of w] by simp
  then have "of_char (char_of (unat w)) = unat w" by (simp add: of_char_of)
  then show ?thesis by simp
qed

lemma bytes_of_string_of_bytes: "bytes_of_string (string_of_bytes b) = b"
proof (induction b)
  case Nil
  show ?case by (simp add: string_of_bytes_def bytes_of_string_def)
next
  case (Cons w ws)
  then show ?case
    using byte_of_char_of_byte [of w]
    by (simp add: string_of_bytes_def bytes_of_string_def)
qed

lemma bytes_of_string_inj: "bytes_of_string s = bytes_of_string t \<Longrightarrow> s = t"
  by (metis string_of_bytes_of_string)

lemma byte_xor_zero: "((x::byte) XOR y = 0) = (x = y)"
  by (auto simp: bit_eq_iff bit_xor_iff)

lemma ConstantTimeByteEq_zero: "(ConstantTimeByteEq v 0 = 1) = (v = 0)"
proof (cases "v = 0")
  case True
  then show ?thesis by (simp add: ConstantTimeByteEq_def)
next
  case False
  then have pos: "0 < unat v" by (simp add: unat_gt_0)
  have lt: "unat v < 256" using unsigned_less [of v] by simp
  have "(ucast v :: 32 word) - 1 = of_nat (unat v - 1)"
    using pos by (simp add: of_nat_diff)
  moreover have "drop_bit 31 (of_nat (unat v - 1) :: 32 word) = 0"
    using lt by (simp add: drop_bit_eq_div word_eq_iff_unsigned[where ?'a = nat] unat_div unat_of_nat)
  ultimately show ?thesis using False by (simp add: ConstantTimeByteEq_def)
qed

lemma ctLoop_zero:
  "length x = length y \<Longrightarrow> (fst (ctLoop v i x y) = 0) = (v = 0 \<and> x = y)"
proof (induction v i x y rule: ctLoop.induct)
  case (1 v i x xs y ys)
  then show ?case by (auto simp: or_eq_0_iff byte_xor_zero)
qed auto



lemma hmac_Equal_iff: "hmac_Equal a b = (a = b)"
  by (auto simp: hmac_Equal_def ConstantTimeCompare_def ConstantTimeByteEq_zero ctLoop_zero)







lemma bytes_of_string_eq_iff: "(bytes_of_string s = bytes_of_string t) = (s = t)"
  using bytes_of_string_inj by blast

lemma verifySignature_eq: "verifySignature W h B = (h = signatureFor W B)"
proof -
  have "verifySignature W h B =
          (bytes_of_string (signatureFor W B) = bytes_of_string h)"
    by (simp add: verifySignature_def signatureFor_def Let_def hmac_Equal_iff)
  then show ?thesis by (auto simp only: bytes_of_string_eq_iff)
qed




section \<open>Running the response writer\<close>

lemma canonical_keys:
  "CanonicalMIMEHeaderKey ''Content-Length'' = ''Content-Length''"
  "CanonicalMIMEHeaderKey ''Content-Type'' = ''Content-Type''"
  "CanonicalMIMEHeaderKey ''X-Content-Type-Options'' = ''X-Content-Type-Options''"
  "CanonicalMIMEHeaderKey ''Message'' = ''Message''"
  "CanonicalMIMEHeaderKey ''User-Agent'' = ''User-Agent''"
  "CanonicalMIMEHeaderKey ''X-GitHub-Delivery'' = ''X-Github-Delivery''"
  "CanonicalMIMEHeaderKey ''X-GitHub-Event'' = ''X-Github-Event''"
  "CanonicalMIMEHeaderKey ''X-Hub-Signature-256'' = ''X-Hub-Signature-256''"
  by code_simp+

lemma emit_state: "emit e \<lparr>writer = w, events = es\<rparr> = \<lparr>writer = w, events = es @ [e]\<rparr>"
  by (simp add: emit_def)

lemma logPrintf_state:
  "logPrintf line \<lparr>writer = w, events = es\<rparr> = \<lparr>writer = w, events = es @ [Log line]\<rparr>"
  by (simp add: logPrintf_def emit_def)

lemma setHeaderMap_state:
  "setHeaderMap f \<lparr>writer = \<lparr>handlerHeader = h, wroteHeader = b, status = c, sentHeader = sh, written = d\<rparr>, events = es\<rparr> =
     \<lparr>writer = \<lparr>handlerHeader = f h, wroteHeader = b, status = c, sentHeader = sh, written = d\<rparr>, events = es\<rparr>"
  by (simp add: setHeaderMap_def)

lemma WriteHeader_first:
  "WriteHeader code \<lparr>writer = \<lparr>handlerHeader = h, wroteHeader = False, status = c, sentHeader = sh, written = d\<rparr>, events = es\<rparr> =
     \<lparr>writer = \<lparr>handlerHeader = h, wroteHeader = True, status = code, sentHeader = h, written = d\<rparr>,
      events = es @ [WriteHeaderCall code]\<rparr>"
  by (simp add: WriteHeader_def sendHeader_def emit_def)

lemma WriteHeader_again:
  "WriteHeader code \<lparr>writer = \<lparr>handlerHeader = h, wroteHeader = True, status = c, sentHeader = sh, written = d\<rparr>, events = es\<rparr> =
     \<lparr>writer = \<lparr>handlerHeader = h, wroteHeader = True, status = c, sentHeader = sh, written = d\<rparr>,
      events = es @ [WriteHeaderCall code]\<rparr>"
  by (simp add: WriteHeader_def sendHeader_def emit_def)

lemma Write_first:
  "data \<noteq> [] \<Longrightarrow>
   Write data \<lparr>writer = \<lparr>handlerHeader = h, wroteHeader = False, status = c, sentHeader = sh, written = d\<rparr>, events = es\<rparr> =
     \<lparr>writer = \<lparr>handlerHeader = h, wroteHeader = True, status = 200, sentHeader = h, written = d @ data\<rparr>,
      events = es @ [WriteCall data]\<rparr>"
  by (simp add: Write_def sendHeader_def emit_def bodyAllowedForStatus_def Let_def)

lemma Write_again:
  "data \<noteq> [] \<Longrightarrow> bodyAllowedForStatus c \<Longrightarrow>
   Write data \<lparr>writer = \<lparr>handlerHeader = h, wroteHeader = True, status = c, sentHeader = sh, written = d\<rparr>, events = es\<rparr> =
     \<lparr>writer = \<lparr>handlerHeader = h, wroteHeader = True, status = c, sentHeader = sh, written = d @ data\<rparr>,
      events = es @ [WriteCall data]\<rparr>"
  by (simp add: Write_def sendHeader_def emit_def Let_def)

lemma plain_text_headers:
  "Header_Set ''X-Content-Type-Options'' ''nosniff''
     (Header_Set ''Content-Type'' ''text/plain; charset=utf-8'' (Header_Del ''Content-Length'' [])) =
   plainTextHeader"
  by (simp add: Header_Set_def Header_Del_def canonical_keys plainTextHeader_def)

lemma plain_text_headers_again:
  "Header_Set ''X-Content-Type-Options'' ''nosniff''
     (Header_Set ''Content-Type'' ''text/plain; charset=utf-8''
        (Header_Del ''Content-Length'' plainTextHeader)) =
   plainTextHeader"
  by (simp add: Header_Set_def Header_Del_def canonical_keys plainTextHeader_def)

lemma http_Error_first:
  "bodyAllowedForStatus code \<Longrightarrow>
   http_Error msg code \<lparr>writer = \<lparr>handlerHeader = [], wroteHeader = False, status = c, sentHeader = sh, written = d\<rparr>, events = es\<rparr> =
     \<lparr>writer = \<lparr>handlerHeader = plainTextHeader, wroteHeader = True, status = code,
                 sentHeader = plainTextHeader, written = d @ msg @ newline\<rparr>,
      events = es @ [WriteHeaderCall code, WriteCall (msg @ newline)]\<rparr>"
  by (simp add: http_Error_def setHeaderMap_state WriteHeader_first
        Write_again plain_text_headers newline_def)

lemma http_Error_again:
  "bodyAllowedForStatus c \<Longrightarrow>
   http_Error msg code \<lparr>writer = \<lparr>handlerHeader = plainTextHeader, wroteHeader = True, status = c, sentHeader = sh, written = d\<rparr>, events = es\<rparr> =
     \<lparr>writer = \<lparr>handlerHeader = plainTextHeader, wroteHeader = True, status = c, sentHeader = sh, written = d @ msg @ newline\<rparr>,
      events = es @ [WriteHeaderCall code, WriteCall (msg @ newline)]\<rparr>"
  by (simp add: http_Error_def setHeaderMap_state WriteHeader_again
        Write_again plain_text_headers_again newline_def)

lemma respondError_first:
  "bodyAllowedForStatus code \<Longrightarrow>
   respondError msg code \<lparr>writer = \<lparr>handlerHeader = [], wroteHeader = False, status = c, sentHeader = sh, written = d\<rparr>, events = es\<rparr> =
     \<lparr>writer = \<lparr>handlerHeader = plainTextHeader, wroteHeader = True, status = code,
                 sentHeader = plainTextHeader, written = d @ msg @ newline\<rparr>,
      events = es @ [Log msg, WriteHeaderCall code, WriteCall (msg @ newline)]\<rparr>"
  by (simp add: respondError_def logPrintf_state http_Error_first)

lemma body_allowed:
  "bodyAllowedForStatus 400" "bodyAllowedForStatus 401" "bodyAllowedForStatus 502"
  "bodyAllowedForStatus 200"
  by (simp_all add: bodyAllowedForStatus_def)

lemma readRequest_state:
  "readRequest reader \<lparr>writer = w, events = es\<rparr> =
     (fst reader, \<lparr>writer = w, events = es @ readEvents reader\<rparr>)"
  by (cases reader; cases "snd reader")
     (simp_all add: readRequest_def readEvents_def emit_state logPrintf_state)

lemma relayRequest_built:
  "urlParse W (relayURL W) \<Longrightarrow>
   http_NewRequestWithContext W ''POST'' (relayURL W) (string_of_bytes B) =
     Some \<lparr>outMethod = ''POST'', outURL = relayURL W, outHeader = [], outBody = string_of_bytes B\<rparr>"
  by (simp add: http_NewRequestWithContext_def)

lemma relayRequest_headers:
  "\<lparr>outMethod = ''POST'', outURL = u, outHeader = Header_Set ''Content-Type'' ''application/json''
       (Header_Set ''User-Agent'' ''Go WebHook Filter'' []), outBody = b\<rparr> =
   \<lparr>outMethod = ''POST'', outURL = u,
    outHeader = [(''User-Agent'', [''Go WebHook Filter'']), (''Content-Type'', [''application/json''])],
    outBody = b\<rparr>"
  by (simp add: Header_Set_def canonical_keys)

lemma successBody_nonempty: "successBody \<noteq> []"
  by (simp add: successBody_def)

lemmas run_simps =
  emit_state logPrintf_state setHeaderMap_state WriteHeader_first WriteHeader_again
  Write_first Write_again http_Error_first http_Error_again respondError_first body_allowed
  readRequest_state relayRequest_built relayRequest_headers successBody_nonempty
  newResponseWriter_def errorReply_def relayRequest_def Let_def

section \<open>Signature verification\<close>




section \<open>The branches of handleRequest\<close>

text \<open>
  One lemma for each way through \<open>handleRequest\<close>, started on a fresh response after
  the events \<open>es\<close>: the outcome, the writer and the events, for both source files.
\<close>

lemma handleRequest_invalid:
  assumes "\<not> verifySignature W (Header_Get (Header r) ''X-Hub-Signature-256'') (fst (Body r))"
    and "hr = handleRequest \<or> hr = handleRequest_server"
  shows "hr W r \<lparr>writer = newResponseWriter, events = es\<rparr> =
     (Returned,
      \<lparr>writer = errorReply 401 ''Invalid Signature'',
       events = es @ readEvents (Body r) @
         [Log ''Invalid Signature'', WriteHeaderCall 401,
          WriteCall (''Invalid Signature'' @ newline)]\<rparr>)"
  using assms by (auto simp: handleRequest_def handleRequest_server_def run_simps)

lemma handleRequest_malformed:
  assumes "verifySignature W (Header_Get (Header r) ''X-Hub-Signature-256'') (fst (Body r))"
    and "json_Unmarshal W (fst (Body r)) = Inl err"
    and "hr = handleRequest \<or> hr = handleRequest_server"
  shows "hr W r \<lparr>writer = newResponseWriter, events = es\<rparr> =
     (Returned,
      \<lparr>writer = errorReply 400 (''Failed to parse JSON: '' @ err),
       events = es @ readEvents (Body r) @
         [Log (''Signature Match! '' @ Header_Get (Header r) ''X-Hub-Signature-256'' @ newline),
          Log (''Failed to parse JSON: '' @ err), WriteHeaderCall 400,
          WriteCall (''Failed to parse JSON: '' @ err @ newline)]\<rparr>)"
  using assms by (auto simp: handleRequest_def handleRequest_server_def run_simps)

lemma handleRequest_filtered:
  assumes "verifySignature W (Header_Get (Header r) ''X-Hub-Signature-256'') (fst (Body r))"
    and "json_Unmarshal W (fst (Body r)) = Inr ev"
    and "PackageType (Package ev) \<noteq> ''CONTAINER''"
  shows "handleRequest W r \<lparr>writer = newResponseWriter, events = es\<rparr> =
     (Returned,
      \<lparr>writer = \<lparr>handlerHeader = [(''Message'', [''Filtered out package_type '' @ PackageType (Package ev) @ ''! No forward to relay''])],
                  wroteHeader = True, status = 204,
                  sentHeader = [(''Message'', [''Filtered out package_type '' @ PackageType (Package ev) @ ''! No forward to relay''])],
                  written = []\<rparr>,
       events = es @ readEvents (Body r) @
         [Log (''Signature Match! '' @ Header_Get (Header r) ''X-Hub-Signature-256'' @ newline),
          Log (''Filtered out package_type '' @ PackageType (Package ev) @ ''! No forward to relay''),
          WriteHeaderCall 204]\<rparr>)"
  using assms by (simp add: handleRequest_def run_simps Header_Add_def canonical_keys)

lemma handleRequest_server_filtered:
  assumes "verifySignature W (Header_Get (Header r) ''X-Hub-Signature-256'') (fst (Body r))"
    and "json_Unmarshal W (fst (Body r)) = Inr ev"
    and "PackageType (Package ev) \<noteq> ''CONTAINER''"
  shows "handleRequest_server W r \<lparr>writer = newResponseWriter, events = es\<rparr> =
     (Returned,
      \<lparr>writer = errorReply 400 (''Filtered out package_type '' @ PackageType (Package ev) @ ''! No forward to relay''),
       events = es @ readEvents (Body r) @
         [Log (''Signature Match! '' @ Header_Get (Header r) ''X-Hub-Signature-256'' @ newline),
          Log (''Filtered out package_type '' @ PackageType (Package ev) @ ''! No forward to relay''),
          WriteHeaderCall 400,
          WriteCall (''Filtered out package_type '' @ PackageType (Package ev) @ ''! No forward to relay'' @ newline)]\<rparr>)"
  using assms by (simp add: handleRequest_server_def run_simps)

lemma handleRequest_badurl:
  assumes "verifySignature W (Header_Get (Header r) ''X-Hub-Signature-256'') (fst (Body r))"
    and "json_Unmarshal W (fst (Body r)) = Inr ev"
    and "PackageType (Package ev) = ''CONTAINER''"
    and "\<not> urlParse W (relayURL W)"
  shows "handleRequest W r \<lparr>writer = newResponseWriter, events = es\<rparr> =
     (Panicked nilDereference,
      \<lparr>writer = newResponseWriter,
       events = es @ readEvents (Body r) @
         [Log (''Signature Match! '' @ Header_Get (Header r) ''X-Hub-Signature-256'' @ newline),
          Log ''package_type CONTAINER passed filter! Sending to relay'']\<rparr>)"
    and "handleRequest_server W r \<lparr>writer = newResponseWriter, events = es\<rparr> =
     (Panicked nilDereference,
      \<lparr>writer = newResponseWriter,
       events = es @ readEvents (Body r) @
         [Log (''Signature Match! '' @ Header_Get (Header r) ''X-Hub-Signature-256'' @ newline),
          Log ''Request passed filter! Sending to relay'']\<rparr>)"
  using assms
  by (simp_all add: handleRequest_def handleRequest_server_def run_simps http_NewRequestWithContext_def)

lemma handleRequest_noresponse:
  assumes "verifySignature W (Header_Get (Header r) ''X-Hub-Signature-256'') (fst (Body r))"
    and "json_Unmarshal W (fst (Body r)) = Inr ev"
    and "PackageType (Package ev) = ''CONTAINER''"
    and "urlParse W (relayURL W)"
    and "clientDo W (relayRequest W (fst (Body r))) = (None, Some e)"
  shows "handleRequest W r \<lparr>writer = newResponseWriter, events = es\<rparr> =
     (Panicked nilDereference,
      \<lparr>writer = errorReply 502 (''Error sending request: '' @ e @ newline),
       events = es @ readEvents (Body r) @
         [Log (''Signature Match! '' @ Header_Get (Header r) ''X-Hub-Signature-256'' @ newline),
          Log ''package_type CONTAINER passed filter! Sending to relay'',
          Do (relayRequest W (fst (Body r))),
          Log (''Error sending request: '' @ e @ newline),
          WriteHeaderCall 502,
          WriteCall (''Error sending request: '' @ e @ newline @ newline)]\<rparr>)"
    and "handleRequest_server W r \<lparr>writer = newResponseWriter, events = es\<rparr> =
     (Panicked nilDereference,
      \<lparr>writer = errorReply 502 (''Error sending request: '' @ e @ newline),
       events = es @ readEvents (Body r) @
         [Log (''Signature Match! '' @ Header_Get (Header r) ''X-Hub-Signature-256'' @ newline),
          Log ''Request passed filter! Sending to relay'',
          Do (relayRequest W (fst (Body r))),
          Log (''Error sending request: '' @ e @ newline),
          WriteHeaderCall 502,
          WriteCall (''Error sending request: '' @ e @ newline @ newline)]\<rparr>)"
  using assms
  by (simp_all add: handleRequest_def handleRequest_server_def run_simps)

lemma handleRequest_nothing:
  assumes "verifySignature W (Header_Get (Header r) ''X-Hub-Signature-256'') (fst (Body r))"
    and "json_Unmarshal W (fst (Body r)) = Inr ev"
    and "PackageType (Package ev) = ''CONTAINER''"
    and "urlParse W (relayURL W)"
    and "clientDo W (relayRequest W (fst (Body r))) = (None, None)"
  shows "handleRequest W r \<lparr>writer = newResponseWriter, events = es\<rparr> =
     (Panicked nilDereference,
      \<lparr>writer = newResponseWriter,
       events = es @ readEvents (Body r) @
         [Log (''Signature Match! '' @ Header_Get (Header r) ''X-Hub-Signature-256'' @ newline),
          Log ''package_type CONTAINER passed filter! Sending to relay'',
          Do (relayRequest W (fst (Body r)))]\<rparr>)"
    and "handleRequest_server W r \<lparr>writer = newResponseWriter, events = es\<rparr> =
     (Panicked nilDereference,
      \<lparr>writer = newResponseWriter,
       events = es @ readEvents (Body r) @
         [Log (''Signature Match! '' @ Header_Get (Header r) ''X-Hub-Signature-256'' @ newline),
          Log ''Request passed filter! Sending to relay'',
          Do (relayRequest W (fst (Body r)))]\<rparr>)"
  using assms
  by (simp_all add: handleRequest_def handleRequest_server_def run_simps)

lemma handleRequest_response:
  assumes "verifySignature W (Header_Get (Header r) ''X-Hub-Signature-256'') (fst (Body r))"
    and "json_Unmarshal W (fst (Body r)) = Inr ev"
    and "PackageType (Package ev) = ''CONTAINER''"
    and "urlParse W (relayURL W)"
    and "clientDo W (relayRequest W (fst (Body r))) = (Some resp, err)"
  shows "handleRequest W r \<lparr>writer = newResponseWriter, events = es\<rparr> =
     (Returned,
      \<lparr>writer =
         \<lparr>handlerHeader =
            (if err = None \<and> 200 \<le> StatusCode resp \<and> StatusCode resp < 300 then [] else plainTextHeader),
          wroteHeader = True,
          status = (if err = None \<and> 200 \<le> StatusCode resp \<and> StatusCode resp < 300 then 200 else 502),
          sentHeader =
            (if err = None \<and> 200 \<le> StatusCode resp \<and> StatusCode resp < 300 then [] else plainTextHeader),
          written =
            (case err of None \<Rightarrow> [] | Some e \<Rightarrow> ''Error sending request: '' @ e @ newline @ newline)
            @ (if StatusCode resp < 200 \<or> StatusCode resp \<ge> 300
               then ''Error - Relay returned status: '' @ showInt (StatusCode resp) @ newline else [])
            @ successBody\<rparr>,
       events = es @ readEvents (Body r) @
         [Log (''Signature Match! '' @ Header_Get (Header r) ''X-Hub-Signature-256'' @ newline),
          Log ''package_type CONTAINER passed filter! Sending to relay'',
          Do (relayRequest W (fst (Body r)))]
         @ (case err of None \<Rightarrow> []
            | Some e \<Rightarrow> [Log (''Error sending request: '' @ e @ newline), WriteHeaderCall 502,
                          WriteCall (''Error sending request: '' @ e @ newline @ newline)])
         @ [Log (''Downstream relay responded with code: '' @ showInt (StatusCode resp))]
         @ (if StatusCode resp < 200 \<or> StatusCode resp \<ge> 300
            then [WriteHeaderCall 502,
                  WriteCall (''Error - Relay returned status: '' @ showInt (StatusCode resp) @ newline)]
            else [])
         @ [WriteCall successBody, WriteHeaderCall 200, BodyClose]\<rparr>)"
proof (cases err)
  case None
  then show ?thesis using assms
    by (cases "StatusCode resp < 200 \<or> StatusCode resp \<ge> 300")
       (auto simp add: handleRequest_def run_simps)
next
  case (Some e)
  then show ?thesis using assms
    by (cases "StatusCode resp < 200 \<or> StatusCode resp \<ge> 300")
       (auto simp add: handleRequest_def run_simps)
qed

lemma handleRequest_server_response:
  assumes "verifySignature W (Header_Get (Header r) ''X-Hub-Signature-256'') (fst (Body r))"
    and "json_Unmarshal W (fst (Body r)) = Inr ev"
    and "PackageType (Package ev) = ''CONTAINER''"
    and "urlParse W (relayURL W)"
    and "clientDo W (relayRequest W (fst (Body r))) = (Some resp, err)"
  shows "handleRequest_server W r \<lparr>writer = newResponseWriter, events = es\<rparr> =
     (Returned,
      \<lparr>writer =
         \<lparr>handlerHeader =
            (if err = None \<and> 200 \<le> StatusCode resp \<and> StatusCode resp < 300 then [] else plainTextHeader),
          wroteHeader = True,
          status = (if err = None \<and> 200 \<le> StatusCode resp \<and> StatusCode resp < 300 then 200 else 502),
          sentHeader =
            (if err = None \<and> 200 \<le> StatusCode resp \<and> StatusCode resp < 300 then [] else plainTextHeader),
          written =
            (case err of None \<Rightarrow> [] | Some e \<Rightarrow> ''Error sending request: '' @ e @ newline @ newline)
            @ (if StatusCode resp < 200 \<or> StatusCode resp \<ge> 300
               then ''Error - Relay returned status: '' @ showInt (StatusCode resp) @ newline else [])\<rparr>,
       events = es @ readEvents (Body r) @
         [Log (''Signature Match! '' @ Header_Get (Header r) ''X-Hub-Signature-256'' @ newline),
          Log ''Request passed filter! Sending to relay'',
          Do (relayRequest W (fst (Body r)))]
         @ (case err of None \<Rightarrow> []
            | Some e \<Rightarrow> [Log (''Error sending request: '' @ e @ newline), WriteHeaderCall 502,
                          WriteCall (''Error sending request: '' @ e @ newline @ newline)])
         @ [Log (''Downstream relay responded with code: '' @ showInt (StatusCode resp))]
         @ (if StatusCode resp < 200 \<or> StatusCode resp \<ge> 300
            then [WriteHeaderCall 502,
                  WriteCall (''Error - Relay returned status: '' @ showInt (StatusCode resp) @ newline)]
            else [])
         @ [WriteHeaderCall 200, BodyClose]\<rparr>)"
proof (cases err)
  case None
  then show ?thesis using assms
    by (cases "StatusCode resp < 200 \<or> StatusCode resp \<ge> 300")
       (auto simp add: handleRequest_server_def run_simps)
next
  case (Some e)
  then show ?thesis using assms
    by (cases "StatusCode resp < 200 \<or> StatusCode resp \<ge> 300")
       (auto simp add: handleRequest_server_def run_simps)
qed

section \<open>The two handlers\<close>

lemma forwards_append: "forwards (es @ es') = forwards es @ forwards es'"
  by (induction es rule: forwards.induct) simp_all

lemma writerCalls_append: "writerCalls (es @ es') = writerCalls es @ writerCalls es'"
  by (induction es rule: writerCalls.induct) simp_all

lemma logLines_append: "logLines (es @ es') = logLines es @ logLines es'"
  by (induction es rule: logLines.induct) simp_all

lemma readEvents_quiet: "forwards (readEvents b) = []" "writerCalls (readEvents b) = []"
  by (cases "snd b"; simp add: readEvents_def)+

lemma headerLogs_quiet:
  "forwards (headerLogs h) = []" "writerCalls (headerLogs h) = []" "ReadAll \<notin> set (headerLogs h)"
proof -
  have "\<forall>e \<in> set (headerLogs h). \<exists>l. e = Log l"
    by (auto simp: headerLogs_def)
  moreover have "(\<forall>e \<in> set es. \<exists>l. e = Log l) \<Longrightarrow> forwards es = [] \<and> writerCalls es = [] \<and> ReadAll \<notin> set es" for es
    by (induction es) auto
  ultimately show "forwards (headerLogs h) = []" "writerCalls (headerLogs h) = []" "ReadAll \<notin> set (headerLogs h)"
    by blast+
qed

lemma handler_delivery:
  assumes "Method r \<noteq> ''HEAD''" and "Method r \<noteq> ''GET''"
    and "Header_Get (Header r) ''X-GitHub-Delivery'' \<noteq> []"
    and "Header_Get (Header r) ''X-GitHub-Event'' \<noteq> []"
  shows "handler W r initial =
     (case handleRequest W r
             \<lparr>writer = newResponseWriter,
              events = [Log ''********************'',
                        Log (''Received '' @ Method r @ '' request from '' @ RemoteAddr r),
                        Log (''Processing request with id: ('' @ Header_Get (Header r) ''X-GitHub-Delivery''
                             @ '') and event type: ('' @ Header_Get (Header r) ''X-GitHub-Event''
                             @ '')'' @ newline)]\<rparr> of
        (out, s) \<Rightarrow>
          (out, s\<lparr>events := events s @ [Log ''Finished processing request'',
                                         Log ''********************'']\<rparr>))"
  using assms
  by (simp add: handler_def logRequest_def initial_def logPrintf_def emit_def Let_def split: prod.splits)

lemma handler_server_delivery:
  assumes "Header_Get (Header r) ''X-GitHub-Delivery'' \<noteq> []"
    and "Header_Get (Header r) ''X-GitHub-Event'' \<noteq> []"
  shows "handler_server W r initial =
     (case handleRequest_server W r
             \<lparr>writer = newResponseWriter,
              events = [Log ''********************'',
                        Log (''Received '' @ Method r @ '' request from '' @ RemoteAddr r),
                        Log (''Processing request with id: ('' @ Header_Get (Header r) ''X-GitHub-Delivery''
                             @ '') and event type: ('' @ Header_Get (Header r) ''X-GitHub-Event''
                             @ '')'' @ newline)]\<rparr> of
        (Returned, s) \<Rightarrow>
          (Returned, s\<lparr>events := events s @ [Log ''Finished processing request'',
                                              Log ''********************'']\<rparr>)
      | (Panicked p, s) \<Rightarrow> (Panicked p, s))"
  using assms
  by (simp add: handler_server_def logRequest_def initial_def logPrintf_def emit_def Let_def
        split: prod.splits outcome.splits)

lemma handler_missing:
  assumes "Header_Get (Header r) ''X-GitHub-Delivery'' = [] \<or> Header_Get (Header r) ''X-GitHub-Event'' = []"
    and "Method r \<noteq> ''HEAD''" and "Method r \<noteq> ''GET''"
  shows "handler W r initial =
     (Returned,
      \<lparr>writer = errorReply 400
         (''Either missing requestId: ('' @ Header_Get (Header r) ''X-GitHub-Delivery''
            @ '') or eventType: ('' @ Header_Get (Header r) ''X-GitHub-Event''
            @ '') and will not process request further''),
       events = [Log ''********************'',
                 Log (''Received '' @ Method r @ '' request from '' @ RemoteAddr r),
                 Log (''Either missing requestId: ('' @ Header_Get (Header r) ''X-GitHub-Delivery''
                      @ '') or eventType: ('' @ Header_Get (Header r) ''X-GitHub-Event''
                      @ '') and will not process request further''),
                 WriteHeaderCall 400,
                 WriteCall (''Either missing requestId: ('' @ Header_Get (Header r) ''X-GitHub-Delivery''
                      @ '') or eventType: ('' @ Header_Get (Header r) ''X-GitHub-Event''
                      @ '') and will not process request further'' @ newline),
                 Log ''Finished processing request'',
                 Log ''********************'']\<rparr>)"
  using assms
  by (auto simp add: handler_def logRequest_def initial_def run_simps)

lemma handler_server_missing:
  assumes "Header_Get (Header r) ''X-GitHub-Delivery'' = [] \<or> Header_Get (Header r) ''X-GitHub-Event'' = []"
  shows "handler_server W r initial =
     (Returned,
      \<lparr>writer = errorReply 400
         (''Either missing requestId: ('' @ Header_Get (Header r) ''X-GitHub-Delivery''
            @ '') or eventType: ('' @ Header_Get (Header r) ''X-GitHub-Event''
            @ '') and will not process request further''),
       events = [Log ''********************'',
                 Log (''Received '' @ Method r @ '' request from '' @ RemoteAddr r),
                 Log (''Either missing requestId: ('' @ Header_Get (Header r) ''X-GitHub-Delivery''
                      @ '') or eventType: ('' @ Header_Get (Header r) ''X-GitHub-Event''
                      @ '') and will not process request further''),
                 WriteHeaderCall 400,
                 WriteCall (''Either missing requestId: ('' @ Header_Get (Header r) ''X-GitHub-Delivery''
                      @ '') or eventType: ('' @ Header_Get (Header r) ''X-GitHub-Event''
                      @ '') and will not process request further'' @ newline)]\<rparr>)"
  using assms
  by (auto simp add: handler_server_def logRequest_def initial_def run_simps)

section \<open>Missing delivery headers\<close>

text \<open>
  Claim C6. A request that is not a probe and lacks the \<open>X-GitHub-Delivery\<close> or the
  \<open>X-GitHub-Event\<close> header (\<open>Get\<close> gives the empty string) is answered 400 with
  the line \<open>logRequest\<close> builds, by the handler of either source file. The body is
  never read, nothing is sent to the relay, and the run is the same for every secret,
  signature, body and relay: it depends on the method, the remote address and the two
  header values only.
\<close>

theorem missing_header_rejected:
  assumes "Header_Get (Header r) ''X-GitHub-Delivery'' = [] \<or> Header_Get (Header r) ''X-GitHub-Event'' = []"
    and "Method r \<noteq> ''HEAD''" and "Method r \<noteq> ''GET''"
    and "h = handler \<or> h = handler_server"
  shows "fst (h W r initial) = Returned \<and>
         reply (h W r initial) =
           errorReply 400
             (''Either missing requestId: ('' @ Header_Get (Header r) ''X-GitHub-Delivery''
                @ '') or eventType: ('' @ Header_Get (Header r) ''X-GitHub-Event''
                @ '') and will not process request further'') \<and>
         sent (h W r initial) = [] \<and>
         ReadAll \<notin> set (trace (h W r initial)) \<and>
         (\<forall>W' r'. Method r' = Method r \<and> RemoteAddr r' = RemoteAddr r \<and>
                  Header_Get (Header r') ''X-GitHub-Delivery'' = Header_Get (Header r) ''X-GitHub-Delivery'' \<and>
                  Header_Get (Header r') ''X-GitHub-Event'' = Header_Get (Header r) ''X-GitHub-Event''
                  \<longrightarrow> h W' r' initial = h W r initial)"
proof -
  from assms(4) show ?thesis
  proof
    assume h: "h = handler"
    note run = handler_missing [OF assms(1-3), of W]
    have same: "handler W' r' initial = handler W r initial"
      if "Method r' = Method r \<and> RemoteAddr r' = RemoteAddr r \<and>
          Header_Get (Header r') ''X-GitHub-Delivery'' = Header_Get (Header r) ''X-GitHub-Delivery'' \<and>
          Header_Get (Header r') ''X-GitHub-Event'' = Header_Get (Header r) ''X-GitHub-Event''"
      for W' r'
    proof -
      have "handler W' r' initial = handler W r initial"
        using that assms(1-3) handler_missing [of r' W'] run by simp
      then show ?thesis .
    qed
    show ?thesis
      unfolding h using same by (simp add: run reply_def sent_def trace_def)
  next
    assume h: "h = handler_server"
    note run = handler_server_missing [OF assms(1), of W]
    have same: "handler_server W' r' initial = handler_server W r initial"
      if "Method r' = Method r \<and> RemoteAddr r' = RemoteAddr r \<and>
          Header_Get (Header r') ''X-GitHub-Delivery'' = Header_Get (Header r) ''X-GitHub-Delivery'' \<and>
          Header_Get (Header r') ''X-GitHub-Event'' = Header_Get (Header r) ''X-GitHub-Event''"
      for W' r'
    proof -
      have "handler_server W' r' initial = handler_server W r initial"
        using that assms(1) handler_server_missing [of r' W'] run by simp
      then show ?thesis .
    qed
    show ?thesis
      unfolding h using same by (simp add: run reply_def sent_def trace_def)
  qed
qed

theorem missing_header_rejected_witness:
  "verifySignature demoWorld (Header_Get (Header noDelivery) ''X-Hub-Signature-256'')
     (fst (Body noDelivery)) \<and>
   fst (handler demoWorld noDelivery initial) = Returned \<and>
   reply (handler demoWorld noDelivery initial) =
     errorReply 400
       ''Either missing requestId: () or eventType: (package) and will not process request further'' \<and>
   sent (handler demoWorld noDelivery initial) = [] \<and>
   ReadAll \<notin> set (trace (handler demoWorld noDelivery initial)) \<and>
   handler relayDown (noDelivery\<lparr>Header := [(''X-Github-Event'', [''package''])], Body := ([], None)\<rparr>) initial =
     handler demoWorld noDelivery initial"
proof -
  let ?r' = "noDelivery\<lparr>Header := [(''X-Github-Event'', [''package''])], Body := ([], None)\<rparr>"
  have absent: "Header_Get (Header noDelivery) ''X-GitHub-Delivery'' = [] \<or>
                 Header_Get (Header noDelivery) ''X-GitHub-Event'' = []"
    by code_simp
  have nonprobe: "Method noDelivery \<noteq> ''HEAD''" "Method noDelivery \<noteq> ''GET''"
    by code_simp+
  have hdrs: "Header_Get (Header noDelivery) ''X-GitHub-Delivery'' = []"
    "Header_Get (Header noDelivery) ''X-GitHub-Event'' = ''package''"
    by code_simp+
  have alike: "Method ?r' = Method noDelivery \<and> RemoteAddr ?r' = RemoteAddr noDelivery \<and>
     Header_Get (Header ?r') ''X-GitHub-Delivery'' = Header_Get (Header noDelivery) ''X-GitHub-Delivery'' \<and>
     Header_Get (Header ?r') ''X-GitHub-Event'' = Header_Get (Header noDelivery) ''X-GitHub-Event''"
    by code_simp
  have signed: "verifySignature demoWorld (Header_Get (Header noDelivery) ''X-Hub-Signature-256'')
     (fst (Body noDelivery))"
    by code_simp
  have which: "handler = handler \<or> handler = handler_server"
    by simp
  note T = missing_header_rejected [OF absent nonprobe which, of demoWorld]
  have same: "handler relayDown ?r' initial = handler demoWorld noDelivery initial"
    by (rule T [THEN conjunct2, THEN conjunct2, THEN conjunct2, THEN conjunct2, rule_format,
                OF alike])
  have answer: "reply (handler demoWorld noDelivery initial) =
     errorReply 400
       ''Either missing requestId: () or eventType: (package) and will not process request further''"
    using T [THEN conjunct2, THEN conjunct1] by (simp add: hdrs)
  from signed T [THEN conjunct1] answer T [THEN conjunct2, THEN conjunct2, THEN conjunct1]
    T [THEN conjunct2, THEN conjunct2, THEN conjunct2, THEN conjunct1] same
  show ?thesis by (intro conjI)
qed

section \<open>Signature mismatch\<close>

text \<open>
  Claim C7. A request that is not a probe, has both delivery headers, and whose
  \<open>X-Hub-Signature-256\<close> header is absent or differs from the signature computed over
  the body, is answered 401 by the handler of either source file. Nothing is sent to the
  relay, and the run does not depend on the JSON parser (the body is not parsed, valid
  JSON or not) nor on the relay.
\<close>

lemma verifySignature_absent: "\<not> verifySignature W [] B"
  by (simp add: verifySignature_eq signatureFor_def)

theorem invalid_signature_rejected:
  assumes "Method r \<noteq> ''HEAD''" and "Method r \<noteq> ''GET''"
    and "Header_Get (Header r) ''X-GitHub-Delivery'' \<noteq> []"
    and "Header_Get (Header r) ''X-GitHub-Event'' \<noteq> []"
    and "Header_Get (Header r) ''X-Hub-Signature-256'' = [] \<or>
         Header_Get (Header r) ''X-Hub-Signature-256'' \<noteq> signatureFor W (fst (Body r))"
    and "h = handler \<or> h = handler_server"
  shows "fst (h W r initial) = Returned \<and>
         reply (h W r initial) = errorReply 401 ''Invalid Signature'' \<and>
         sent (h W r initial) = [] \<and>
         (\<forall>p d. h (W\<lparr>parseJSON := p, clientDo := d\<rparr>) r initial = h W r initial)"
proof -
  have bad: "\<not> verifySignature W' (Header_Get (Header r) ''X-Hub-Signature-256'') (fst (Body r))"
    if "W' = W \<or> (\<exists>p d. W' = W\<lparr>parseJSON := p, clientDo := d\<rparr>)" for W'
  proof -
    have "signatureFor W' (fst (Body r)) = signatureFor W (fst (Body r))"
      using that by (auto simp: signatureFor_def)
    then show ?thesis
      using assms(5) verifySignature_absent [of W' "fst (Body r)"]
      by (auto simp: verifySignature_eq)
  qed
  from assms(6) show ?thesis
  proof
    assume h: "h = handler"
    have run: "handler W' r initial =
       (Returned,
        \<lparr>writer = errorReply 401 ''Invalid Signature'',
         events = [Log ''********************'',
                   Log (''Received '' @ Method r @ '' request from '' @ RemoteAddr r),
                   Log (''Processing request with id: ('' @ Header_Get (Header r) ''X-GitHub-Delivery''
                        @ '') and event type: ('' @ Header_Get (Header r) ''X-GitHub-Event''
                        @ '')'' @ newline)]
                  @ readEvents (Body r)
                  @ [Log ''Invalid Signature'', WriteHeaderCall 401,
                     WriteCall (''Invalid Signature'' @ newline),
                     Log ''Finished processing request'', Log ''********************'']\<rparr>)"
      if "W' = W \<or> (\<exists>p d. W' = W\<lparr>parseJSON := p, clientDo := d\<rparr>)" for W'
      using handleRequest_invalid [OF bad [OF that], of handleRequest]
      by (simp add: handler_delivery [OF assms(1-4)])
    have "handler (W\<lparr>parseJSON := p, clientDo := d\<rparr>) r initial = handler W r initial" for p d
      using run [of W] run [of "W\<lparr>parseJSON := p, clientDo := d\<rparr>"] by auto
    then show ?thesis
      unfolding h using run [of W]
      by (simp add: reply_def sent_def forwards_append readEvents_quiet)
  next
    assume h: "h = handler_server"
    have run: "handler_server W' r initial =
       (Returned,
        \<lparr>writer = errorReply 401 ''Invalid Signature'',
         events = [Log ''********************'',
                   Log (''Received '' @ Method r @ '' request from '' @ RemoteAddr r),
                   Log (''Processing request with id: ('' @ Header_Get (Header r) ''X-GitHub-Delivery''
                        @ '') and event type: ('' @ Header_Get (Header r) ''X-GitHub-Event''
                        @ '')'' @ newline)]
                  @ readEvents (Body r)
                  @ [Log ''Invalid Signature'', WriteHeaderCall 401,
                     WriteCall (''Invalid Signature'' @ newline),
                     Log ''Finished processing request'', Log ''********************'']\<rparr>)"
      if "W' = W \<or> (\<exists>p d. W' = W\<lparr>parseJSON := p, clientDo := d\<rparr>)" for W'
      using handleRequest_invalid [OF bad [OF that], of handleRequest_server]
      by (simp add: handler_server_delivery [OF assms(3,4)])
    have "handler_server (W\<lparr>parseJSON := p, clientDo := d\<rparr>) r initial = handler_server W r initial" for p d
      using run [of W] run [of "W\<lparr>parseJSON := p, clientDo := d\<rparr>"] by auto
    then show ?thesis
      unfolding h using run [of W]
      by (simp add: reply_def sent_def forwards_append readEvents_quiet)
  qed
qed

theorem invalid_signature_rejected_witness:
  "json_Unmarshal demoWorld (fst (Body (delivery ''POST'' sigMaven bodyContainer))) =
     Inr \<lparr>Package = \<lparr>PackageType = ''CONTAINER''\<rparr>\<rparr> \<and>
   fst (handler demoWorld (delivery ''POST'' sigMaven bodyContainer) initial) = Returned \<and>
   reply (handler demoWorld (delivery ''POST'' sigMaven bodyContainer) initial) =
     errorReply 401 ''Invalid Signature'' \<and>
   sent (handler demoWorld (delivery ''POST'' sigMaven bodyContainer) initial) = [] \<and>
   handler (demoWorld\<lparr>parseJSON := (\<lambda>data. Inl ''no parser''), clientDo := clientDo relayDown\<rparr>)
       (delivery ''POST'' sigMaven bodyContainer) initial =
     handler demoWorld (delivery ''POST'' sigMaven bodyContainer) initial \<and>
   Header_Get (Header unsignedDelivery) ''X-Hub-Signature-256'' = [] \<and>
   reply (handler_server demoWorld unsignedDelivery initial) = errorReply 401 ''Invalid Signature''"
proof -
  let ?r = "delivery ''POST'' sigMaven bodyContainer"
  have nonprobe: "Method ?r \<noteq> ''HEAD''" "Method ?r \<noteq> ''GET''"
    by code_simp+
  have present: "Header_Get (Header ?r) ''X-GitHub-Delivery'' \<noteq> []"
    "Header_Get (Header ?r) ''X-GitHub-Event'' \<noteq> []"
    by code_simp+
  have wrong: "Header_Get (Header ?r) ''X-Hub-Signature-256'' = [] \<or>
     Header_Get (Header ?r) ''X-Hub-Signature-256'' \<noteq> signatureFor demoWorld (fst (Body ?r))"
    by code_simp
  have json: "json_Unmarshal demoWorld (fst (Body ?r)) =
     Inr \<lparr>Package = \<lparr>PackageType = ''CONTAINER''\<rparr>\<rparr>"
    by code_simp
  have first: "handler = handler \<or> handler = handler_server"
    by simp
  note T = invalid_signature_rejected [OF nonprobe present wrong first]
  have nonprobe': "Method unsignedDelivery \<noteq> ''HEAD''" "Method unsignedDelivery \<noteq> ''GET''"
    by code_simp+
  have present': "Header_Get (Header unsignedDelivery) ''X-GitHub-Delivery'' \<noteq> []"
    "Header_Get (Header unsignedDelivery) ''X-GitHub-Event'' \<noteq> []"
    by code_simp+
  have none: "Header_Get (Header unsignedDelivery) ''X-Hub-Signature-256'' = []"
    by code_simp
  then have wrong': "Header_Get (Header unsignedDelivery) ''X-Hub-Signature-256'' = [] \<or>
     Header_Get (Header unsignedDelivery) ''X-Hub-Signature-256''
       \<noteq> signatureFor demoWorld (fst (Body unsignedDelivery))"
    by (rule disjI1)
  have second: "handler_server = handler \<or> handler_server = handler_server"
    by simp
  note T' = invalid_signature_rejected [OF nonprobe' present' wrong' second]
  from json T [THEN conjunct1] T [THEN conjunct2, THEN conjunct1]
    T [THEN conjunct2, THEN conjunct2, THEN conjunct1]
    T [THEN conjunct2, THEN conjunct2, THEN conjunct2, rule_format,
       of "clientDo relayDown" "\<lambda>data. Inl ''no parser''"]
    none T' [THEN conjunct2, THEN conjunct1]
  show ?thesis by (intro conjI)
qed

section \<open>What a run sends\<close>

text \<open>
  A delivery is accepted when its signature verifies, its body decodes without error to
  the package type CONTAINER, and the relay URL parses. Exactly the accepted deliveries
  are sent on, once, as \<open>relayRequest\<close>.
\<close>

lemma handleRequest_sent:
  assumes "hr = handleRequest \<or> hr = handleRequest_server"
  shows "forwards (events (snd (hr W r \<lparr>writer = newResponseWriter, events = es\<rparr>))) =
     forwards es @
     (if verifySignature W (Header_Get (Header r) ''X-Hub-Signature-256'') (fst (Body r)) \<and>
         (case json_Unmarshal W (fst (Body r)) of
            Inl e \<Rightarrow> False
          | Inr ev \<Rightarrow> PackageType (Package ev) = ''CONTAINER'') \<and>
         urlParse W (relayURL W)
      then [relayRequest W (fst (Body r))] else [])"
proof (cases "verifySignature W (Header_Get (Header r) ''X-Hub-Signature-256'') (fst (Body r))")
  case False
  then show ?thesis
    using handleRequest_invalid [OF False assms, of es]
    by (simp add: forwards_append readEvents_quiet)
next
  case good: True
  show ?thesis
  proof (cases "json_Unmarshal W (fst (Body r))")
    case (Inl e)
    then show ?thesis
      using handleRequest_malformed [OF good Inl assms, of es] good
      by (simp add: forwards_append readEvents_quiet)
  next
    case (Inr ev)
    show ?thesis
    proof (cases "PackageType (Package ev) = ''CONTAINER''")
      case False
      then show ?thesis
        using handleRequest_filtered [OF good Inr False, of es]
          handleRequest_server_filtered [OF good Inr False, of es] assms good Inr
        by (auto simp: forwards_append readEvents_quiet)
    next
      case container: True
      show ?thesis
      proof (cases "urlParse W (relayURL W)")
        case False
        then show ?thesis
          using handleRequest_badurl [OF good Inr container False, of es] assms good Inr container
          by (auto simp: forwards_append readEvents_quiet)
      next
        case url: True
        obtain resp err where do: "clientDo W (relayRequest W (fst (Body r))) = (resp, err)"
          by (cases "clientDo W (relayRequest W (fst (Body r)))") auto
        show ?thesis
        proof (cases resp)
          case None
          show ?thesis
          proof (cases err)
            case none: None
            show ?thesis
              using handleRequest_nothing [OF good Inr container url do [unfolded None none], of es]
                assms good Inr container url
              by (auto simp: forwards_append readEvents_quiet)
          next
            case (Some e)
            show ?thesis
              using handleRequest_noresponse [OF good Inr container url do [unfolded None Some], of es]
                assms good Inr container url
              by (auto simp: forwards_append readEvents_quiet)
          qed
        next
          case (Some resp')
          have quiet: "forwards (case err of None \<Rightarrow> []
              | Some e \<Rightarrow> [Log (''Error sending request: '' @ e @ newline), WriteHeaderCall 502,
                            WriteCall (''Error sending request: '' @ e @ newline @ newline)]) = []"
            by (cases err) simp_all
          show ?thesis
            using handleRequest_response [OF good Inr container url do [unfolded Some], of es]
              handleRequest_server_response [OF good Inr container url do [unfolded Some], of es]
              assms good Inr container url quiet
            by (auto simp: forwards_append readEvents_quiet)
        qed
      qed
    qed
  qed
qed

lemma log_values:
  "foldl (\<lambda>s val. logPrintf (g val) s) \<lparr>writer = w, events = es\<rparr> vs =
     \<lparr>writer = w, events = es @ map (\<lambda>val. Log (g val)) vs\<rparr>"
  by (induction vs arbitrary: es) (simp_all add: logPrintf_state)

lemma log_headers:
  "foldl (\<lambda>s kv. foldl (\<lambda>s val. logPrintf (''Header: '' @ fst kv @ '' = '' @ val) s) s (snd kv))
         \<lparr>writer = w, events = es\<rparr> h =
     \<lparr>writer = w, events = es @ headerLogs h\<rparr>"
proof -
  define F where "F = (\<lambda>s kv. foldl (\<lambda>s val. logPrintf (''Header: '' @ fst kv @ '' = '' @ val) s)
                                  s (snd kv))"
  have step: "F \<lparr>writer = w, events = es\<rparr> kv =
      \<lparr>writer = w, events = es @ map (\<lambda>val. Log (''Header: '' @ fst kv @ '' = '' @ val)) (snd kv)\<rparr>"
    for es kv
    unfolding F_def by (rule log_values)
  have "foldl F \<lparr>writer = w, events = es\<rparr> h = \<lparr>writer = w, events = es @ headerLogs h\<rparr>"
    by (induction h arbitrary: es) (simp_all only: foldl.simps step headerLogs_def list.map
          concat.simps append_Nil2 append_assoc)
  then show ?thesis unfolding F_def .
qed

lemma handler_probe:
  assumes "Method r = ''HEAD'' \<or> Method r = ''GET''"
  shows "handler W r initial =
     (Returned,
      \<lparr>writer = \<lparr>handlerHeader = [], wroteHeader = True, status = 200, sentHeader = [],
                  written = []\<rparr>,
       events = [Log ''********************'',
                 Log (''Received '' @ Method r @ '' request from '' @ RemoteAddr r)]
                @ headerLogs (Header r)
                @ [WriteHeaderCall 200, Log ''Finished processing request'',
                   Log ''********************'']\<rparr>)"
proof -
  have "handleHeadAndGet r \<lparr>writer = newResponseWriter, events = es\<rparr> =
      \<lparr>writer = \<lparr>handlerHeader = [], wroteHeader = True, status = 200, sentHeader = [],
                  written = []\<rparr>,
       events = es @ headerLogs (Header r) @ [WriteHeaderCall 200]\<rparr>" for es
    unfolding handleHeadAndGet_def log_headers
    by (simp add: newResponseWriter_def WriteHeader_first)
  then show ?thesis
    using assms
    by (auto simp: handler_def initial_def Let_def logPrintf_state)
qed

lemma handler_sent:
  "sent (handler W r initial) =
     (if Method r \<noteq> ''HEAD'' \<and> Method r \<noteq> ''GET'' \<and>
         Header_Get (Header r) ''X-GitHub-Delivery'' \<noteq> [] \<and>
         Header_Get (Header r) ''X-GitHub-Event'' \<noteq> [] \<and>
         verifySignature W (Header_Get (Header r) ''X-Hub-Signature-256'') (fst (Body r)) \<and>
         (case json_Unmarshal W (fst (Body r)) of
            Inl e \<Rightarrow> False
          | Inr ev \<Rightarrow> PackageType (Package ev) = ''CONTAINER'') \<and>
         urlParse W (relayURL W)
      then [relayRequest W (fst (Body r))] else [])"
proof (cases "Method r = ''HEAD'' \<or> Method r = ''GET''")
  case True
  then show ?thesis
    using handler_probe [OF True, of W]
    by (auto simp: sent_def forwards_append headerLogs_quiet)
next
  case nonprobe: False
  show ?thesis
  proof (cases "Header_Get (Header r) ''X-GitHub-Delivery'' = [] \<or>
                Header_Get (Header r) ''X-GitHub-Event'' = []")
    case True
    then show ?thesis
      using nonprobe handler_missing [OF True, of W]
      by (auto simp: sent_def)
  next
    case False
    define s0 where "s0 =
       \<lparr>writer = newResponseWriter,
        events = [Log ''********************'',
                  Log (''Received '' @ Method r @ '' request from '' @ RemoteAddr r),
                  Log (''Processing request with id: ('' @ Header_Get (Header r) ''X-GitHub-Delivery''
                       @ '') and event type: ('' @ Header_Get (Header r) ''X-GitHub-Event''
                       @ '')'' @ newline)]\<rparr>"
    have first: "handleRequest = handleRequest \<or> handleRequest = handleRequest_server"
      by simp
    have run: "handler W r initial =
       (case handleRequest W r s0 of
          (out, s) \<Rightarrow>
            (out, s\<lparr>events := events s @ [Log ''Finished processing request'',
                                           Log ''********************'']\<rparr>))"
      unfolding s0_def using nonprobe False by (intro handler_delivery) simp_all
    have "sent (handler W r initial) = forwards (events (snd (handleRequest W r s0)))"
      unfolding run by (cases "handleRequest W r s0") (simp add: sent_def forwards_append)
    also have "\<dots> = forwards (events s0) @
       (if verifySignature W (Header_Get (Header r) ''X-Hub-Signature-256'') (fst (Body r)) \<and>
           (case json_Unmarshal W (fst (Body r)) of
              Inl e \<Rightarrow> False
            | Inr ev \<Rightarrow> PackageType (Package ev) = ''CONTAINER'') \<and>
           urlParse W (relayURL W)
        then [relayRequest W (fst (Body r))] else [])"
      unfolding s0_def State.simps by (rule handleRequest_sent [OF first])
    also have "forwards (events s0) = []"
      unfolding s0_def by simp
    finally show ?thesis
      using nonprobe False by simp
  qed
qed

lemma handler_server_sent:
  "sent (handler_server W r initial) =
     (if Header_Get (Header r) ''X-GitHub-Delivery'' \<noteq> [] \<and>
         Header_Get (Header r) ''X-GitHub-Event'' \<noteq> [] \<and>
         verifySignature W (Header_Get (Header r) ''X-Hub-Signature-256'') (fst (Body r)) \<and>
         (case json_Unmarshal W (fst (Body r)) of
            Inl e \<Rightarrow> False
          | Inr ev \<Rightarrow> PackageType (Package ev) = ''CONTAINER'') \<and>
         urlParse W (relayURL W)
      then [relayRequest W (fst (Body r))] else [])"
proof (cases "Header_Get (Header r) ''X-GitHub-Delivery'' = [] \<or>
              Header_Get (Header r) ''X-GitHub-Event'' = []")
  case True
  then show ?thesis
    using handler_server_missing [OF True, of W]
    by (auto simp: sent_def)
next
  case False
  define s0 where "s0 =
     \<lparr>writer = newResponseWriter,
      events = [Log ''********************'',
                Log (''Received '' @ Method r @ '' request from '' @ RemoteAddr r),
                Log (''Processing request with id: ('' @ Header_Get (Header r) ''X-GitHub-Delivery''
                     @ '') and event type: ('' @ Header_Get (Header r) ''X-GitHub-Event''
                     @ '')'' @ newline)]\<rparr>"
  have second: "handleRequest_server = handleRequest \<or> handleRequest_server = handleRequest_server"
    by simp
  have run: "handler_server W r initial =
     (case handleRequest_server W r s0 of
        (Returned, s) \<Rightarrow>
          (Returned, s\<lparr>events := events s @ [Log ''Finished processing request'',
                                              Log ''********************'']\<rparr>)
      | (Panicked p, s) \<Rightarrow> (Panicked p, s))"
    unfolding s0_def using False by (intro handler_server_delivery) simp_all
  have "sent (handler_server W r initial) = forwards (events (snd (handleRequest_server W r s0)))"
    unfolding run
    by (cases "handleRequest_server W r s0"; cases "fst (handleRequest_server W r s0)")
       (simp_all add: sent_def forwards_append)
  also have "\<dots> = forwards (events s0) @
     (if verifySignature W (Header_Get (Header r) ''X-Hub-Signature-256'') (fst (Body r)) \<and>
         (case json_Unmarshal W (fst (Body r)) of
            Inl e \<Rightarrow> False
          | Inr ev \<Rightarrow> PackageType (Package ev) = ''CONTAINER'') \<and>
         urlParse W (relayURL W)
      then [relayRequest W (fst (Body r))] else [])"
    unfolding s0_def State.simps by (rule handleRequest_sent [OF second])
  also have "forwards (events s0) = []"
    unfolding s0_def by simp
  finally show ?thesis
    using False by simp
qed

section \<open>Malformed JSON and what is decoded\<close>

lemma foldl_skip_others:
  assumes "\<And>acc kv. \<not> P kv \<Longrightarrow> f acc kv = acc"
  shows "foldl f a (filter P m) = foldl f a m"
  using assms by (induction m arbitrary: a) simp_all

lemma folded_names:
  "foldName ''package'' = ''PACKAGE''" "foldName ''package_type'' = ''PACKAGE_TYPE''"
  by code_simp+

lemma fieldMatch_folded:
  "fieldMatch ''package'' key = (foldName key = ''PACKAGE'')"
  "fieldMatch ''package_type'' key = (foldName key = ''PACKAGE_TYPE'')"
  by (auto simp only: fieldMatch_def folded_names)

lemma foldName_ascii: "list_all isASCII key \<Longrightarrow> foldName key = map foldByte key"
  by (induction key rule: foldName.induct) (auto simp: isASCII_def)

lemma storePackage_prunePackageFolded:
  "storePackage W (prunePackageFolded v) acc = storePackage W v acc"
proof (cases acc)
  case (Pair err cur)
  show ?thesis
  proof (cases v)
    case (JObject m)
    show ?thesis
      unfolding Pair JObject prunePackageFolded.simps storePackage.simps
        fieldMatch_folded [symmetric]
      by (rule foldl_skip_others) simp
  qed (simp_all add: Pair)
qed

lemma storeEvent_members:
  "foldl (\<lambda>acc kv.
            if fieldMatch ''package'' (fst kv)
            then (case storePackage W (snd kv) (fst acc, Package (snd acc)) of
                    (e, p) \<Rightarrow> (e, (snd acc)\<lparr>Package := p\<rparr>))
            else acc)
         a (map (\<lambda>kv. (fst kv, prunePackageFolded (snd kv)))
                (filter (\<lambda>kv. fieldMatch ''package'' (fst kv)) m)) =
   foldl (\<lambda>acc kv.
            if fieldMatch ''package'' (fst kv)
            then (case storePackage W (snd kv) (fst acc, Package (snd acc)) of
                    (e, p) \<Rightarrow> (e, (snd acc)\<lparr>Package := p\<rparr>))
            else acc)
         a m"
  by (induction m arbitrary: a) (simp_all add: storePackage_prunePackageFolded)

lemma storeEvent_pruneFolded: "storeEvent W (pruneFolded v) acc = storeEvent W v acc"
proof (cases acc)
  case (Pair err cur)
  show ?thesis
  proof (cases v)
    case (JObject m)
    show ?thesis
      unfolding Pair JObject pruneFolded.simps storeEvent.simps fieldMatch_folded [symmetric]
      by (rule storeEvent_members)
  qed (simp_all add: Pair)
qed

lemma unmarshalValue_pruneFolded: "unmarshalValue W (pruneFolded v) = unmarshalValue W v"
  by (simp add: unmarshalValue_def storeEvent_pruneFolded)

lemma fieldMatch_same: "fieldMatch name name"
  by (simp add: fieldMatch_def)

lemma unmarshalValue_package_type:
  "unmarshalValue W (JObject [(''package'', JObject [(''package_type'', JString t)])]) =
     Inr \<lparr>Package = \<lparr>PackageType = t\<rparr>\<rparr>"
  by (simp add: unmarshalValue_def fieldMatch_same zeroEvent_def)

lemma json_Unmarshal_syntax:
  "parseJSON W B = Inl err \<Longrightarrow> json_Unmarshal W B = Inl err"
  by (simp add: json_Unmarshal_def)

text \<open>
  Claim C8, as amended. A request that is not a probe, has both delivery headers and a
  valid signature, and for whose body \<open>json.Unmarshal\<close> returns an error (a syntax
  error, which is always such an error, or a value of the wrong kind for one of the two
  fields), is answered 400 with the error's text after \<open>Failed to parse JSON: \<close>, by
  the handler of either source file, and nothing is sent to the relay. Decoding reads the
  members whose key is \<open>package\<close> and, inside them, \<open>package_type\<close> up to the case
  folding of encoding/json, and no others: a document and the same document with every
  other member removed decode alike; for a key of ASCII bytes the folding is the upper
  case of its letters; and \<open>{"package":{"package_type":t}}\<close> decodes to the event with
  package type \<open>t\<close>.
\<close>

theorem malformed_json_rejected:
  assumes "Method r \<noteq> ''HEAD''" and "Method r \<noteq> ''GET''"
    and "Header_Get (Header r) ''X-GitHub-Delivery'' \<noteq> []"
    and "Header_Get (Header r) ''X-GitHub-Event'' \<noteq> []"
    and "Header_Get (Header r) ''X-Hub-Signature-256'' = signatureFor W (fst (Body r))"
    and "json_Unmarshal W (fst (Body r)) = Inl err"
    and "h = handler \<or> h = handler_server"
  shows "fst (h W r initial) = Returned \<and>
         reply (h W r initial) = errorReply 400 (''Failed to parse JSON: '' @ err) \<and>
         sent (h W r initial) = [] \<and>
         (\<forall>B e. parseJSON W B = Inl e \<longrightarrow> json_Unmarshal W B = Inl e) \<and>
         (\<forall>v. unmarshalValue W (pruneFolded v) = unmarshalValue W v) \<and>
         (\<forall>key. list_all isASCII key \<longrightarrow> foldName key = map foldByte key) \<and>
         (\<forall>t. unmarshalValue W (JObject [(''package'', JObject [(''package_type'', JString t)])]) =
                Inr \<lparr>Package = \<lparr>PackageType = t\<rparr>\<rparr>)"
proof -
  have good: "verifySignature W (Header_Get (Header r) ''X-Hub-Signature-256'') (fst (Body r))"
    using assms(5) by (simp add: verifySignature_eq)
  have run: "fst (h W r initial) = Returned \<and>
         reply (h W r initial) = errorReply 400 (''Failed to parse JSON: '' @ err) \<and>
         sent (h W r initial) = []"
    using assms(7)
  proof
    assume h: "h = handler"
    show ?thesis
      unfolding h
      using handleRequest_malformed [OF good assms(6), of handleRequest]
      by (simp add: handler_delivery [OF assms(1-4)] reply_def sent_def forwards_append
            readEvents_quiet)
  next
    assume h: "h = handler_server"
    show ?thesis
      unfolding h
      using handleRequest_malformed [OF good assms(6), of handleRequest_server]
      by (simp add: handler_server_delivery [OF assms(3,4)] reply_def sent_def forwards_append
            readEvents_quiet)
  qed
  show ?thesis
    using run
    by (intro conjI allI impI)
       (simp_all add: json_Unmarshal_syntax unmarshalValue_pruneFolded foldName_ascii
          unmarshalValue_package_type)
qed

theorem malformed_json_rejected_witness:
  "reply (handler demoWorld (delivery ''POST'' sigBroken bodyBroken) initial) =
     errorReply 400 ''Failed to parse JSON: unexpected end of JSON input'' \<and>
   sent (handler demoWorld (delivery ''POST'' sigBroken bodyBroken) initial) = [] \<and>
   parseJSON demoWorld (bytes_of_string bodyNumber) =
     Inr (JObject [(''package'', JObject [(''package_type'', JNumber ''7'')])]) \<and>
   reply (handler_server demoWorld (delivery ''POST'' sigNumber bodyNumber) initial) =
     errorReply 400
       ''Failed to parse JSON: json: cannot unmarshal number into Go struct field .package.package_type of type string'' \<and>
   sent (handler_server demoWorld (delivery ''POST'' sigNumber bodyNumber) initial) = [] \<and>
   pruneFolded
     (JObject [(''action'', JString ''published''),
               (''package'', JObject [(''id'', JNumber ''1''),
                                      (''package_type'', JString ''CONTAINER'')])]) =
     JObject [(''package'', JObject [(''package_type'', JString ''CONTAINER'')])] \<and>
   json_Unmarshal demoWorld (bytes_of_string bodyExtra) =
     Inr \<lparr>Package = \<lparr>PackageType = ''CONTAINER''\<rparr>\<rparr> \<and>
   foldName ''Package_Type'' = ''PACKAGE_TYPE''"
proof -
  let ?r = "delivery ''POST'' sigBroken bodyBroken"
  let ?n = "delivery ''POST'' sigNumber bodyNumber"
  let ?v = "JObject [(''action'', JString ''published''),
                     (''package'', JObject [(''id'', JNumber ''1''),
                                            (''package_type'', JString ''CONTAINER'')])]"
  have nonprobe: "Method ?r \<noteq> ''HEAD''" "Method ?r \<noteq> ''GET''"
    by code_simp+
  have present: "Header_Get (Header ?r) ''X-GitHub-Delivery'' \<noteq> []"
    "Header_Get (Header ?r) ''X-GitHub-Event'' \<noteq> []"
    by code_simp+
  have signed: "Header_Get (Header ?r) ''X-Hub-Signature-256'' = signatureFor demoWorld (fst (Body ?r))"
    by code_simp
  have broken: "json_Unmarshal demoWorld (fst (Body ?r)) = Inl ''unexpected end of JSON input''"
    by code_simp
  have first: "handler = handler \<or> handler = handler_server"
    and second: "handler_server = handler \<or> handler_server = handler_server"
    by simp_all
  note T = malformed_json_rejected [OF nonprobe present signed broken first]
  have nonprobe': "Method ?n \<noteq> ''HEAD''" "Method ?n \<noteq> ''GET''"
    by code_simp+
  have present': "Header_Get (Header ?n) ''X-GitHub-Delivery'' \<noteq> []"
    "Header_Get (Header ?n) ''X-GitHub-Event'' \<noteq> []"
    by code_simp+
  have signed': "Header_Get (Header ?n) ''X-Hub-Signature-256'' = signatureFor demoWorld (fst (Body ?n))"
    by code_simp
  have parsed': "parseJSON demoWorld (bytes_of_string bodyNumber) =
     Inr (JObject [(''package'', JObject [(''package_type'', JNumber ''7'')])])"
    by code_simp
  have mistyped: "json_Unmarshal demoWorld (fst (Body ?n)) =
     Inl ''json: cannot unmarshal number into Go struct field .package.package_type of type string''"
    by code_simp
  note T' = malformed_json_rejected [OF nonprobe' present' signed' mistyped second]
  have parsed: "parseJSON demoWorld (bytes_of_string bodyExtra) = Inr ?v"
    by code_simp
  have pruned: "pruneFolded ?v =
     JObject [(''package'', JObject [(''package_type'', JString ''CONTAINER'')])]"
    by code_simp
  have "unmarshalValue demoWorld ?v = unmarshalValue demoWorld (pruneFolded ?v)"
    by (rule T [THEN conjunct2, THEN conjunct2, THEN conjunct2, THEN conjunct2, THEN conjunct1,
                rule_format, symmetric])
  also have "\<dots> = unmarshalValue demoWorld
     (JObject [(''package'', JObject [(''package_type'', JString ''CONTAINER'')])])"
    by (simp only: pruned)
  also have "\<dots> = Inr \<lparr>Package = \<lparr>PackageType = ''CONTAINER''\<rparr>\<rparr>"
    by (rule T [THEN conjunct2, THEN conjunct2, THEN conjunct2, THEN conjunct2, THEN conjunct2,
                THEN conjunct2, rule_format])
  finally have decoded: "json_Unmarshal demoWorld (bytes_of_string bodyExtra) =
     Inr \<lparr>Package = \<lparr>PackageType = ''CONTAINER''\<rparr>\<rparr>"
    by (simp add: json_Unmarshal_def parsed)
  have ascii: "list_all isASCII ''Package_Type''"
    by code_simp
  have "foldName ''Package_Type'' = map foldByte ''Package_Type''"
    by (rule T [THEN conjunct2, THEN conjunct2, THEN conjunct2, THEN conjunct2, THEN conjunct2,
                THEN conjunct1, rule_format, OF ascii])
  also have "\<dots> = ''PACKAGE_TYPE''"
    by code_simp
  finally have folded: "foldName ''Package_Type'' = ''PACKAGE_TYPE''" .
  have a: "reply (handler demoWorld ?r initial) =
     errorReply 400 ''Failed to parse JSON: unexpected end of JSON input''"
    using T [THEN conjunct2, THEN conjunct1] by simp
  have b: "reply (handler_server demoWorld ?n initial) =
     errorReply 400
       ''Failed to parse JSON: json: cannot unmarshal number into Go struct field .package.package_type of type string''"
    using T' [THEN conjunct2, THEN conjunct1] by simp
  from a T [THEN conjunct2, THEN conjunct2, THEN conjunct1] parsed' b
    T' [THEN conjunct2, THEN conjunct2, THEN conjunct1] pruned decoded folded
  show ?thesis by (intro conjI)
qed

theorem decoding_names_counterexample:
  "parseJSON demoWorld (bytes_of_string bodyUpper) =
     Inr (JObject [(''PACKAGE'', JObject [(''Package_Type'', JString ''CONTAINER'')])]) \<and>
   pruneNamed (JObject [(''PACKAGE'', JObject [(''Package_Type'', JString ''CONTAINER'')])]) =
     JObject [] \<and>
   unmarshalValue demoWorld
     (pruneNamed (JObject [(''PACKAGE'', JObject [(''Package_Type'', JString ''CONTAINER'')])])) =
     Inr \<lparr>Package = \<lparr>PackageType = []\<rparr>\<rparr> \<and>
   json_Unmarshal demoWorld (bytes_of_string bodyUpper) =
     Inr \<lparr>Package = \<lparr>PackageType = ''CONTAINER''\<rparr>\<rparr> \<and>
   sent (handler demoWorld (delivery ''POST'' sigUpper bodyUpper) initial) =
     [relayRequest demoWorld (bytes_of_string bodyUpper)]"
proof -
  let ?r = "delivery ''POST'' sigUpper bodyUpper"
  have parsed: "parseJSON demoWorld (bytes_of_string bodyUpper) =
     Inr (JObject [(''PACKAGE'', JObject [(''Package_Type'', JString ''CONTAINER'')])])"
    by code_simp
  have pruned: "pruneNamed (JObject [(''PACKAGE'', JObject [(''Package_Type'', JString ''CONTAINER'')])]) =
     JObject []"
    by code_simp
  have emptied: "unmarshalValue demoWorld
     (pruneNamed (JObject [(''PACKAGE'', JObject [(''Package_Type'', JString ''CONTAINER'')])])) =
     Inr \<lparr>Package = \<lparr>PackageType = []\<rparr>\<rparr>"
    unfolding pruned by code_simp
  have decoded: "json_Unmarshal demoWorld (bytes_of_string bodyUpper) =
     Inr \<lparr>Package = \<lparr>PackageType = ''CONTAINER''\<rparr>\<rparr>"
    by code_simp
  have body: "fst (Body ?r) = bytes_of_string bodyUpper"
    by code_simp
  have accepted: "Method ?r \<noteq> ''HEAD''" "Method ?r \<noteq> ''GET''"
    "Header_Get (Header ?r) ''X-GitHub-Delivery'' \<noteq> []"
    "Header_Get (Header ?r) ''X-GitHub-Event'' \<noteq> []"
    "verifySignature demoWorld (Header_Get (Header ?r) ''X-Hub-Signature-256'')
       (bytes_of_string bodyUpper)"
    "urlParse demoWorld (relayURL demoWorld)"
    by code_simp+
  have relayed: "sent (handler demoWorld ?r initial) =
     [relayRequest demoWorld (bytes_of_string bodyUpper)]"
    unfolding handler_sent body using accepted decoded by simp
  from parsed pruned emptied decoded relayed show ?thesis
    by (intro conjI)
qed

section \<open>The forwarded request\<close>

lemma sent_accepted:
  assumes "q \<in> set (sent (h W r initial))" and "h = handler \<or> h = handler_server"
  shows "sent (h W r initial) = [relayRequest W (fst (Body r))]"
    and "verifySignature W (Header_Get (Header r) ''X-Hub-Signature-256'') (fst (Body r))"
    and "\<exists>ev. json_Unmarshal W (fst (Body r)) = Inr ev \<and> PackageType (Package ev) = ''CONTAINER''"
proof -
  define accepted where "accepted \<longleftrightarrow>
      verifySignature W (Header_Get (Header r) ''X-Hub-Signature-256'') (fst (Body r)) \<and>
      (case json_Unmarshal W (fst (Body r)) of
         Inl e \<Rightarrow> False
       | Inr ev \<Rightarrow> PackageType (Package ev) = ''CONTAINER'')"
  have "sent (h W r initial) \<noteq> []"
    using assms(1) by auto
  then have both: "sent (h W r initial) = [relayRequest W (fst (Body r))] \<and> accepted"
    using assms(2) unfolding accepted_def
    by (auto simp: handler_sent handler_server_sent split: if_splits)
  then show "sent (h W r initial) = [relayRequest W (fst (Body r))]"
    by simp
  from both show "verifySignature W (Header_Get (Header r) ''X-Hub-Signature-256'') (fst (Body r))"
    unfolding accepted_def by simp
  from both show "\<exists>ev. json_Unmarshal W (fst (Body r)) = Inr ev \<and> PackageType (Package ev) = ''CONTAINER''"
    unfolding accepted_def by (cases "json_Unmarshal W (fst (Body r))") simp_all
qed

text \<open>
  Claim C9. Whatever a run of either handler sends to the relay is one request: a POST
  to the configured relay URL, with the header \<open>User-Agent\<close> set to
  \<open>Go WebHook Filter\<close> and \<open>Content-Type\<close> set to \<open>application/json\<close> and no other
  header, whose body is byte for byte the body read from the inbound request. Those
  same bytes are the ones whose signature was verified against the inbound header and
  the ones that decoded to the package type CONTAINER.
\<close>

theorem forwarded_request:
  assumes "q \<in> set (sent (h W r initial))" and "h = handler \<or> h = handler_server"
  shows "sent (h W r initial) = [q] \<and>
         outMethod q = ''POST'' \<and>
         outURL q = relayURL W \<and>
         bytes_of_string (outBody q) = fst (Body r) \<and>
         outHeader q = [(''User-Agent'', [''Go WebHook Filter'']),
                        (''Content-Type'', [''application/json''])] \<and>
         Header_Get (outHeader q) ''User-Agent'' = ''Go WebHook Filter'' \<and>
         Header_Get (outHeader q) ''Content-Type'' = ''application/json'' \<and>
         Header_Get (Header r) ''X-Hub-Signature-256'' = signatureFor W (bytes_of_string (outBody q)) \<and>
         (\<exists>ev. json_Unmarshal W (bytes_of_string (outBody q)) = Inr ev \<and>
               PackageType (Package ev) = ''CONTAINER'')"
proof -
  note one = sent_accepted(1) [OF assms]
  have q: "q = relayRequest W (fst (Body r))"
    using assms(1) unfolding one by simp
  have body: "bytes_of_string (outBody q) = fst (Body r)"
    unfolding q relayRequest_def by (simp add: bytes_of_string_of_bytes)
  have signed: "Header_Get (Header r) ''X-Hub-Signature-256'' = signatureFor W (fst (Body r))"
    using sent_accepted(2) [OF assms] by (simp add: verifySignature_eq)
  have user_agent: "Header_Get (outHeader q) ''User-Agent'' = ''Go WebHook Filter''"
    unfolding q relayRequest_def by code_simp
  have content_type: "Header_Get (outHeader q) ''Content-Type'' = ''application/json''"
    unfolding q relayRequest_def by code_simp
  show ?thesis
    unfolding body
    using one signed sent_accepted(3) [OF assms] user_agent content_type
    by (simp add: q relayRequest_def)
qed

theorem forwarded_request_witness:
  "sent (handler demoWorld (delivery ''POST'' sigContainer bodyContainer) initial) =
     [\<lparr>outMethod = ''POST'', outURL = relayURL demoWorld,
       outHeader = [(''User-Agent'', [''Go WebHook Filter'']),
                    (''Content-Type'', [''application/json''])],
       outBody = bodyContainer\<rparr>] \<and>
   sent (handler_server demoWorld (delivery ''PUT'' sigContainer bodyContainer) initial) =
     [\<lparr>outMethod = ''POST'', outURL = relayURL demoWorld,
       outHeader = [(''User-Agent'', [''Go WebHook Filter'']),
                    (''Content-Type'', [''application/json''])],
       outBody = bodyContainer\<rparr>] \<and>
   Header_Get (Header (delivery ''POST'' sigContainer bodyContainer)) ''X-Hub-Signature-256'' =
     signatureFor demoWorld (bytes_of_string bodyContainer)"
proof -
  let ?r = "delivery ''POST'' sigContainer bodyContainer"
  let ?r' = "delivery ''PUT'' sigContainer bodyContainer"
  let ?q = "\<lparr>outMethod = ''POST'', outURL = relayURL demoWorld,
       outHeader = [(''User-Agent'', [''Go WebHook Filter'']),
                    (''Content-Type'', [''application/json''])],
       outBody = bodyContainer\<rparr>"
  have request: "relayRequest demoWorld (bytes_of_string bodyContainer) = ?q"
    by code_simp
  have body: "fst (Body ?r) = bytes_of_string bodyContainer"
    "fst (Body ?r') = bytes_of_string bodyContainer"
    by code_simp+
  have decoded: "json_Unmarshal demoWorld (bytes_of_string bodyContainer) =
     Inr \<lparr>Package = \<lparr>PackageType = ''CONTAINER''\<rparr>\<rparr>"
    by code_simp
  have accepted: "Method ?r \<noteq> ''HEAD''" "Method ?r \<noteq> ''GET''"
    "Header_Get (Header ?r) ''X-GitHub-Delivery'' \<noteq> []"
    "Header_Get (Header ?r) ''X-GitHub-Event'' \<noteq> []"
    "verifySignature demoWorld (Header_Get (Header ?r) ''X-Hub-Signature-256'')
       (bytes_of_string bodyContainer)"
    "Header_Get (Header ?r') ''X-GitHub-Delivery'' \<noteq> []"
    "Header_Get (Header ?r') ''X-GitHub-Event'' \<noteq> []"
    "verifySignature demoWorld (Header_Get (Header ?r') ''X-Hub-Signature-256'')
       (bytes_of_string bodyContainer)"
    "urlParse demoWorld (relayURL demoWorld)"
    by code_simp+
  have relayed: "sent (handler demoWorld ?r initial) = [?q]"
    unfolding handler_sent body request [symmetric] using accepted decoded by simp
  have relayed': "sent (handler_server demoWorld ?r' initial) = [?q]"
    unfolding handler_server_sent body request [symmetric] using accepted decoded by simp
  have mem: "?q \<in> set (sent (handler demoWorld ?r initial))"
    unfolding relayed by simp
  have mem': "?q \<in> set (sent (handler_server demoWorld ?r' initial))"
    unfolding relayed' by simp
  have first: "handler = handler \<or> handler = handler_server"
    and second: "handler_server = handler \<or> handler_server = handler_server"
    by simp_all
  have same: "bytes_of_string (outBody ?q) = bytes_of_string bodyContainer"
    by simp
  note T = forwarded_request [OF mem first]
  note T' = forwarded_request [OF mem' second]
  have signed: "Header_Get (Header ?r) ''X-Hub-Signature-256'' =
     signatureFor demoWorld (bytes_of_string bodyContainer)"
    using T [THEN conjunct2, THEN conjunct2, THEN conjunct2, THEN conjunct2, THEN conjunct2,
             THEN conjunct2, THEN conjunct2, THEN conjunct1]
    unfolding same .
  from T [THEN conjunct1] T' [THEN conjunct1] signed show ?thesis
    by (intro conjI)
qed

section \<open>Probes\<close>

lemma logLines_headerLogs:
  "logLines (headerLogs h) =
     concat (map (\<lambda>kv. map (\<lambda>val. ''Header: '' @ fst kv @ '' = '' @ val) (snd kv)) h)"
proof -
  have one: "logLines (map (\<lambda>val. Log (g val)) vs) = map g vs" for g :: "string \<Rightarrow> string" and vs
    by (induction vs) simp_all
  show ?thesis
    unfolding headerLogs_def
    by (induction h) (simp_all add: logLines_append one)
qed

text \<open>
  Claim C5, as amended. The handler of src/unnamed/part_000 answers a request whose
  method is GET or HEAD with status 200, no header and no body. It logs the two opening
  lines, one line \<open>Header: name = value\<close> for every name and value of the request's
  header in the order the header is ranged over, and the two closing lines. It does not
  read the body and sends nothing to the relay, and the whole run is the same for every
  world (secret, MAC, parser, relay) and every body. In
  src/github_webhook_filter_server.go the method plays no part in what is sent to the
  relay.
\<close>

theorem probe_answered:
  assumes "Method r = ''HEAD'' \<or> Method r = ''GET''"
  shows "fst (handler W r initial) = Returned \<and>
         reply (handler W r initial) =
           \<lparr>handlerHeader = [], wroteHeader = True, status = 200, sentHeader = [], written = []\<rparr> \<and>
         writerCalls (trace (handler W r initial)) = [WriteHeaderCall 200] \<and>
         logLines (trace (handler W r initial)) =
           [''********************'',
            ''Received '' @ Method r @ '' request from '' @ RemoteAddr r]
           @ concat (map (\<lambda>kv. map (\<lambda>val. ''Header: '' @ fst kv @ '' = '' @ val) (snd kv)) (Header r))
           @ [''Finished processing request'', ''********************''] \<and>
         ReadAll \<notin> set (trace (handler W r initial)) \<and>
         sent (handler W r initial) = [] \<and>
         (\<forall>W' b. handler W' (r\<lparr>Body := b\<rparr>) initial = handler W r initial) \<and>
         (\<forall>m. sent (handler_server W (r\<lparr>Method := m\<rparr>) initial) = sent (handler_server W r initial))"
proof -
  have same: "handler W' (r\<lparr>Body := b\<rparr>) initial = handler W r initial" for W' b
  proof -
    have "Method (r\<lparr>Body := b\<rparr>) = ''HEAD'' \<or> Method (r\<lparr>Body := b\<rparr>) = ''GET''"
      using assms by simp
    from handler_probe [OF this, of W'] handler_probe [OF assms, of W] show ?thesis
      by simp
  qed
  have server: "sent (handler_server W (r\<lparr>Method := m\<rparr>) initial) = sent (handler_server W r initial)"
    for m
    unfolding handler_server_sent by simp
  have run: "fst (handler W r initial) = Returned \<and>
         reply (handler W r initial) =
           \<lparr>handlerHeader = [], wroteHeader = True, status = 200, sentHeader = [], written = []\<rparr> \<and>
         writerCalls (trace (handler W r initial)) = [WriteHeaderCall 200] \<and>
         logLines (trace (handler W r initial)) =
           [''********************'',
            ''Received '' @ Method r @ '' request from '' @ RemoteAddr r]
           @ concat (map (\<lambda>kv. map (\<lambda>val. ''Header: '' @ fst kv @ '' = '' @ val) (snd kv)) (Header r))
           @ [''Finished processing request'', ''********************''] \<and>
         ReadAll \<notin> set (trace (handler W r initial)) \<and>
         sent (handler W r initial) = []"
    unfolding handler_probe [OF assms]
    by (simp add: reply_def trace_def sent_def writerCalls_append logLines_append forwards_append
          headerLogs_quiet logLines_headerLogs)
  from run same server show ?thesis
    by simp
qed

theorem probe_answered_witness:
  "status (reply (handler demoWorld (probe ''GET'') initial)) = 200 \<and>
   written (reply (handler demoWorld (probe ''HEAD'') initial)) = [] \<and>
   writerCalls (trace (handler demoWorld (probe ''GET'') initial)) = [WriteHeaderCall 200] \<and>
   logLines (trace (handler demoWorld (probe ''GET'') initial)) =
     [''********************'',
      ''Received GET request from 192.0.2.7:50412'',
      ''Header: User-Agent = curl/8.5.0'',
      ''Header: Accept = */*'',
      ''Finished processing request'',
      ''********************''] \<and>
   sent (handler demoWorld (delivery ''GET'' sigContainer bodyContainer) initial) = [] \<and>
   handler relayDown ((delivery ''GET'' sigContainer bodyContainer)\<lparr>Body := ([], None)\<rparr>) initial =
     handler demoWorld (delivery ''GET'' sigContainer bodyContainer) initial"
proof -
  have get: "Method (probe ''GET'') = ''HEAD'' \<or> Method (probe ''GET'') = ''GET''"
    and head: "Method (probe ''HEAD'') = ''HEAD'' \<or> Method (probe ''HEAD'') = ''GET''"
    and signed: "Method (delivery ''GET'' sigContainer bodyContainer) = ''HEAD'' \<or>
                 Method (delivery ''GET'' sigContainer bodyContainer) = ''GET''"
    by (simp_all add: probe_def delivery_def)
  note G = probe_answered [OF get, of demoWorld]
  note H = probe_answered [OF head, of demoWorld]
  note S = probe_answered [OF signed, of demoWorld]
  have a: "status (reply (handler demoWorld (probe ''GET'') initial)) = 200"
    using G [THEN conjunct2, THEN conjunct1] by simp
  have b: "written (reply (handler demoWorld (probe ''HEAD'') initial)) = []"
    using H [THEN conjunct2, THEN conjunct1] by simp
  have lines: "[''********************'',
            ''Received '' @ Method (probe ''GET'') @ '' request from '' @ RemoteAddr (probe ''GET'')]
           @ concat (map (\<lambda>kv. map (\<lambda>val. ''Header: '' @ fst kv @ '' = '' @ val) (snd kv))
                         (Header (probe ''GET'')))
           @ [''Finished processing request'', ''********************''] =
     [''********************'',
      ''Received GET request from 192.0.2.7:50412'',
      ''Header: User-Agent = curl/8.5.0'',
      ''Header: Accept = */*'',
      ''Finished processing request'',
      ''********************'']"
    by code_simp
  have c: "logLines (trace (handler demoWorld (probe ''GET'') initial)) =
     [''********************'',
      ''Received GET request from 192.0.2.7:50412'',
      ''Header: User-Agent = curl/8.5.0'',
      ''Header: Accept = */*'',
      ''Finished processing request'',
      ''********************'']"
    using G [THEN conjunct2, THEN conjunct2, THEN conjunct2, THEN conjunct1]
    unfolding lines .
  note d = S [THEN conjunct2, THEN conjunct2, THEN conjunct2, THEN conjunct2, THEN conjunct2,
             THEN conjunct2, THEN conjunct1, rule_format, of relayDown "([], None)"]
  from a b G [THEN conjunct2, THEN conjunct2, THEN conjunct1] c
    S [THEN conjunct2, THEN conjunct2, THEN conjunct2, THEN conjunct2, THEN conjunct2, THEN conjunct1]
    d
  show ?thesis
    by (intro conjI)
qed

theorem probe_server_counterexample:
  "Method (probe ''GET'') = ''GET'' \<and>
   reply (handler_server demoWorld (probe ''GET'') initial) =
     errorReply 400
       ''Either missing requestId: () or eventType: () and will not process request further'' \<and>
   Method (delivery ''GET'' sigContainer bodyContainer) = ''GET'' \<and>
   sent (handler_server demoWorld (delivery ''GET'' sigContainer bodyContainer) initial) =
     [relayRequest demoWorld (bytes_of_string bodyContainer)]"
proof -
  let ?r = "delivery ''GET'' sigContainer bodyContainer"
  have none: "Header_Get (Header (probe ''GET'')) ''X-GitHub-Delivery'' = []"
    "Header_Get (Header (probe ''GET'')) ''X-GitHub-Event'' = []"
    by code_simp+
  then have missing: "Header_Get (Header (probe ''GET'')) ''X-GitHub-Delivery'' = [] \<or>
      Header_Get (Header (probe ''GET'')) ''X-GitHub-Event'' = []"
    by simp
  have a: "reply (handler_server demoWorld (probe ''GET'') initial) =
     errorReply 400
       ''Either missing requestId: () or eventType: () and will not process request further''"
    unfolding handler_server_missing [OF missing] none by (simp add: reply_def)
  have body: "fst (Body ?r) = bytes_of_string bodyContainer"
    by code_simp
  have decoded: "json_Unmarshal demoWorld (bytes_of_string bodyContainer) =
     Inr \<lparr>Package = \<lparr>PackageType = ''CONTAINER''\<rparr>\<rparr>"
    by code_simp
  have accepted:
    "Header_Get (Header ?r) ''X-GitHub-Delivery'' \<noteq> []"
    "Header_Get (Header ?r) ''X-GitHub-Event'' \<noteq> []"
    "verifySignature demoWorld (Header_Get (Header ?r) ''X-Hub-Signature-256'')
       (bytes_of_string bodyContainer)"
    "urlParse demoWorld (relayURL demoWorld)"
    by code_simp+
  have b: "sent (handler_server demoWorld ?r initial) =
     [relayRequest demoWorld (bytes_of_string bodyContainer)]"
    unfolding handler_server_sent body using accepted decoded by simp
  have m: "Method (probe ''GET'') = ''GET''" "Method ?r = ''GET''"
    by (simp_all add: probe_def delivery_def)
  from m(1) a m(2) b show ?thesis
    by (intro conjI)
qed

section \<open>A relay that cannot be reached\<close>

text \<open>
  Claim C3 at a concrete input: an accepted CONTAINER delivery while the relay refuses
  the connection. \<open>client.Do\<close> returns no response and an error. Both handlers send the
  request, write the 502 reply with the error's text and then, instead of returning, go
  on to \<open>httpResponse.Body\<close> of the absent response: the run ends in the panic of a nil
  dereference.
\<close>

theorem transport_error_panics:
  "clientDo relayDown (relayRequest relayDown (bytes_of_string bodyContainer)) =
     (None, Some ''Post \"https://relay.example/hook\": dial tcp: connection refused'') \<and>
   sent (handler relayDown (delivery ''POST'' sigContainer bodyContainer) initial) =
     [relayRequest relayDown (bytes_of_string bodyContainer)] \<and>
   reply (handler relayDown (delivery ''POST'' sigContainer bodyContainer) initial) =
     errorReply 502
       (''Error sending request: Post \"https://relay.example/hook\": dial tcp: connection refused''
        @ newline) \<and>
   fst (handler relayDown (delivery ''POST'' sigContainer bodyContainer) initial) =
     Panicked nilDereference \<and>
   reply (handler_server relayDown (delivery ''POST'' sigContainer bodyContainer) initial) =
     errorReply 502
       (''Error sending request: Post \"https://relay.example/hook\": dial tcp: connection refused''
        @ newline) \<and>
   fst (handler_server relayDown (delivery ''POST'' sigContainer bodyContainer) initial) =
     Panicked nilDereference"
proof -
  let ?r = "delivery ''POST'' sigContainer bodyContainer"
  let ?e = "''Post \"https://relay.example/hook\": dial tcp: connection refused''"
  have body: "fst (Body ?r) = bytes_of_string bodyContainer"
    by code_simp
  have nonprobe: "Method ?r \<noteq> ''HEAD''" "Method ?r \<noteq> ''GET''"
    by code_simp+
  have present: "Header_Get (Header ?r) ''X-GitHub-Delivery'' \<noteq> []"
    "Header_Get (Header ?r) ''X-GitHub-Event'' \<noteq> []"
    by code_simp+
  have good: "verifySignature relayDown (Header_Get (Header ?r) ''X-Hub-Signature-256'') (fst (Body ?r))"
    by code_simp
  have decoded: "json_Unmarshal relayDown (fst (Body ?r)) =
     Inr \<lparr>Package = \<lparr>PackageType = ''CONTAINER''\<rparr>\<rparr>"
    by code_simp
  have container:
    "PackageType (Package \<lparr>Package = \<lparr>PackageType = ''CONTAINER''\<rparr>\<rparr>) = ''CONTAINER''"
    by simp
  have url: "urlParse relayDown (relayURL relayDown)"
    by code_simp
  have down: "clientDo relayDown (relayRequest relayDown (fst (Body ?r))) = (None, Some ?e)"
    by (simp add: relayDown_def)
  note branch = handleRequest_noresponse [OF good decoded container url down]
  have a: "sent (handler relayDown ?r initial) = [relayRequest relayDown (bytes_of_string bodyContainer)]"
    unfolding handler_sent body [symmetric] using nonprobe present good decoded url by simp
  have b: "reply (handler relayDown ?r initial) = errorReply 502 (''Error sending request: '' @ ?e @ newline)"
    and c: "fst (handler relayDown ?r initial) = Panicked nilDereference"
    unfolding handler_delivery [OF nonprobe present] branch(1) by (simp_all add: reply_def)
  have d: "reply (handler_server relayDown ?r initial) =
       errorReply 502 (''Error sending request: '' @ ?e @ newline)"
    and e: "fst (handler_server relayDown ?r initial) = Panicked nilDereference"
    unfolding handler_server_delivery [OF present] branch(2) by (simp_all add: reply_def)
  from down [unfolded body] a b c d e show ?thesis
    by simp
qed

section \<open>A relay that answers outside 200 to 299\<close>

lemma sent_conditions:
  assumes "sent (handler W r initial) = [q]"
  shows "q = relayRequest W (fst (Body r))"
    and "Method r \<noteq> ''HEAD''" and "Method r \<noteq> ''GET''"
    and "Header_Get (Header r) ''X-GitHub-Delivery'' \<noteq> []"
    and "Header_Get (Header r) ''X-GitHub-Event'' \<noteq> []"
    and "verifySignature W (Header_Get (Header r) ''X-Hub-Signature-256'') (fst (Body r))"
    and "\<exists>ev. json_Unmarshal W (fst (Body r)) = Inr ev \<and> PackageType (Package ev) = ''CONTAINER''"
    and "urlParse W (relayURL W)"
proof -
  define decoded where "decoded \<longleftrightarrow>
      (case json_Unmarshal W (fst (Body r)) of
         Inl e \<Rightarrow> False
       | Inr ev \<Rightarrow> PackageType (Package ev) = ''CONTAINER'')"
  have all: "q = relayRequest W (fst (Body r)) \<and>
      Method r \<noteq> ''HEAD'' \<and> Method r \<noteq> ''GET'' \<and>
      Header_Get (Header r) ''X-GitHub-Delivery'' \<noteq> [] \<and>
      Header_Get (Header r) ''X-GitHub-Event'' \<noteq> [] \<and>
      verifySignature W (Header_Get (Header r) ''X-Hub-Signature-256'') (fst (Body r)) \<and>
      decoded \<and> urlParse W (relayURL W)"
    using assms unfolding handler_sent decoded_def by (simp split: if_splits)
  then show "q = relayRequest W (fst (Body r))"
    and "Method r \<noteq> ''HEAD''" and "Method r \<noteq> ''GET''"
    and "Header_Get (Header r) ''X-GitHub-Delivery'' \<noteq> []"
    and "Header_Get (Header r) ''X-GitHub-Event'' \<noteq> []"
    and "verifySignature W (Header_Get (Header r) ''X-Hub-Signature-256'') (fst (Body r))"
    and "urlParse W (relayURL W)"
    by simp_all
  from all show "\<exists>ev. json_Unmarshal W (fst (Body r)) = Inr ev \<and> PackageType (Package ev) = ''CONTAINER''"
    unfolding decoded_def by (cases "json_Unmarshal W (fst (Body r))") simp_all
qed

lemma writerCalls_failed:
  "writerCalls (case err of None \<Rightarrow> []
     | Some e \<Rightarrow> [Log (''Error sending request: '' @ e @ newline), WriteHeaderCall 502,
                   WriteCall (''Error sending request: '' @ e @ newline @ newline)]) =
   (case err of None \<Rightarrow> []
     | Some e \<Rightarrow> [WriteHeaderCall 502,
                   WriteCall (''Error sending request: '' @ e @ newline @ newline)])"
  by (cases err) simp_all

text \<open>
  Claim C4, as amended. When a delivery is forwarded and the relay's response has a
  status code outside 200 to 299, both handlers return with the status 502 and the
  plain-text headers of \<open>http.Error\<close>; the body starts with the line
  \<open>Error - Relay returned status: \<close> and the code (after the line of a failed send,
  if \<open>client.Do\<close> gave an error with its response). Afterwards the handler of
  src/unnamed/part_000 writes the success body, which is appended to the 502 reply, and
  calls \<open>WriteHeader(200)\<close>, which leaves the status at 502. The handler of
  src/github_webhook_filter_server.go only calls \<open>WriteHeader(200)\<close>, to the same
  effect, and writes no success body.
\<close>

theorem relay_error_status:
  assumes "sent (handler W r initial) = [q]"
    and "clientDo W q = (Some resp, err)"
    and "StatusCode resp < 200 \<or> 300 \<le> StatusCode resp"
  shows "fst (handler W r initial) = Returned \<and>
         status (reply (handler W r initial)) = 502 \<and>
         sentHeader (reply (handler W r initial)) = plainTextHeader \<and>
         written (reply (handler W r initial)) =
           (case err of None \<Rightarrow> [] | Some e \<Rightarrow> ''Error sending request: '' @ e @ newline @ newline)
           @ ''Error - Relay returned status: '' @ showInt (StatusCode resp) @ newline
           @ successBody \<and>
         writerCalls (trace (handler W r initial)) =
           (case err of None \<Rightarrow> []
            | Some e \<Rightarrow> [WriteHeaderCall 502,
                          WriteCall (''Error sending request: '' @ e @ newline @ newline)])
           @ [WriteHeaderCall 502,
              WriteCall (''Error - Relay returned status: '' @ showInt (StatusCode resp) @ newline),
              WriteCall successBody, WriteHeaderCall 200] \<and>
         fst (handler_server W r initial) = Returned \<and>
         status (reply (handler_server W r initial)) = 502 \<and>
         sentHeader (reply (handler_server W r initial)) = plainTextHeader \<and>
         written (reply (handler_server W r initial)) =
           (case err of None \<Rightarrow> [] | Some e \<Rightarrow> ''Error sending request: '' @ e @ newline @ newline)
           @ ''Error - Relay returned status: '' @ showInt (StatusCode resp) @ newline \<and>
         writerCalls (trace (handler_server W r initial)) =
           (case err of None \<Rightarrow> []
            | Some e \<Rightarrow> [WriteHeaderCall 502,
                          WriteCall (''Error sending request: '' @ e @ newline @ newline)])
           @ [WriteHeaderCall 502,
              WriteCall (''Error - Relay returned status: '' @ showInt (StatusCode resp) @ newline),
              WriteHeaderCall 200]"
proof -
  note c = sent_conditions [OF assms(1)]
  from c(7) obtain ev where decoded: "json_Unmarshal W (fst (Body r)) = Inr ev"
    and container: "PackageType (Package ev) = ''CONTAINER''"
    by blast
  have answered: "clientDo W (relayRequest W (fst (Body r))) = (Some resp, err)"
    using assms(2) unfolding c(1) .
  have outside: "\<not> (err = None \<and> 200 \<le> StatusCode resp \<and> StatusCode resp < 300)"
    using assms(3) by auto
  have inside: "StatusCode resp < 200 \<or> StatusCode resp \<ge> 300"
    using assms(3) by auto
  note part = handleRequest_response [OF c(6) decoded container c(8) answered,
      unfolded if_not_P [OF outside] if_P [OF inside]]
  note server = handleRequest_server_response [OF c(6) decoded container c(8) answered,
      unfolded if_not_P [OF outside] if_P [OF inside]]
  have first: "fst (handler W r initial) = Returned \<and>
         status (reply (handler W r initial)) = 502 \<and>
         sentHeader (reply (handler W r initial)) = plainTextHeader \<and>
         written (reply (handler W r initial)) =
           (case err of None \<Rightarrow> [] | Some e \<Rightarrow> ''Error sending request: '' @ e @ newline @ newline)
           @ ''Error - Relay returned status: '' @ showInt (StatusCode resp) @ newline
           @ successBody \<and>
         writerCalls (trace (handler W r initial)) =
           (case err of None \<Rightarrow> []
            | Some e \<Rightarrow> [WriteHeaderCall 502,
                          WriteCall (''Error sending request: '' @ e @ newline @ newline)])
           @ [WriteHeaderCall 502,
              WriteCall (''Error - Relay returned status: '' @ showInt (StatusCode resp) @ newline),
              WriteCall successBody, WriteHeaderCall 200]"
    unfolding handler_delivery [OF c(2-5)] part
    by (simp add: reply_def trace_def writerCalls_append readEvents_quiet writerCalls_failed)
  have second: "fst (handler_server W r initial) = Returned \<and>
         status (reply (handler_server W r initial)) = 502 \<and>
         sentHeader (reply (handler_server W r initial)) = plainTextHeader \<and>
         written (reply (handler_server W r initial)) =
           (case err of None \<Rightarrow> [] | Some e \<Rightarrow> ''Error sending request: '' @ e @ newline @ newline)
           @ ''Error - Relay returned status: '' @ showInt (StatusCode resp) @ newline \<and>
         writerCalls (trace (handler_server W r initial)) =
           (case err of None \<Rightarrow> []
            | Some e \<Rightarrow> [WriteHeaderCall 502,
                          WriteCall (''Error sending request: '' @ e @ newline @ newline)])
           @ [WriteHeaderCall 502,
              WriteCall (''Error - Relay returned status: '' @ showInt (StatusCode resp) @ newline),
              WriteHeaderCall 200]"
    unfolding handler_server_delivery [OF c(4,5)] server
    by (simp add: reply_def trace_def writerCalls_append readEvents_quiet writerCalls_failed)
  show ?thesis
    by (insert first second, elim conjE, intro conjI; assumption)
qed

theorem relay_error_status_witness:
  "sent (handler relay500 (delivery ''POST'' sigContainer bodyContainer) initial) =
     [relayRequest relay500 (bytes_of_string bodyContainer)] \<and>
   status (reply (handler relay500 (delivery ''POST'' sigContainer bodyContainer) initial)) = 502 \<and>
   written (reply (handler relay500 (delivery ''POST'' sigContainer bodyContainer) initial)) =
     ''Error - Relay returned status: 500'' @ newline @ successBody \<and>
   writerCalls (trace (handler relay500 (delivery ''POST'' sigContainer bodyContainer) initial)) =
     [WriteHeaderCall 502, WriteCall (''Error - Relay returned status: 500'' @ newline),
      WriteCall successBody, WriteHeaderCall 200] \<and>
   status (reply (handler_server relay500 (delivery ''POST'' sigContainer bodyContainer) initial)) = 502"
proof -
  let ?r = "delivery ''POST'' sigContainer bodyContainer"
  let ?q = "relayRequest relay500 (bytes_of_string bodyContainer)"
  have body: "fst (Body ?r) = bytes_of_string bodyContainer"
    by code_simp
  have decoded: "json_Unmarshal relay500 (bytes_of_string bodyContainer) =
     Inr \<lparr>Package = \<lparr>PackageType = ''CONTAINER''\<rparr>\<rparr>"
    by code_simp
  have accepted: "Method ?r \<noteq> ''HEAD''" "Method ?r \<noteq> ''GET''"
    "Header_Get (Header ?r) ''X-GitHub-Delivery'' \<noteq> []"
    "Header_Get (Header ?r) ''X-GitHub-Event'' \<noteq> []"
    "verifySignature relay500 (Header_Get (Header ?r) ''X-Hub-Signature-256'')
       (bytes_of_string bodyContainer)"
    "urlParse relay500 (relayURL relay500)"
    by code_simp+
  have relayed: "sent (handler relay500 ?r initial) = [?q]"
    unfolding handler_sent body using accepted decoded by simp
  have answer: "clientDo relay500 ?q = (Some \<lparr>StatusCode = 500\<rparr>, None)"
    by (simp add: relay500_def)
  have outside: "StatusCode \<lparr>StatusCode = 500\<rparr> < 200 \<or> 300 \<le> StatusCode \<lparr>StatusCode = 500\<rparr>"
    by simp
  have code: "showInt (StatusCode \<lparr>StatusCode = 500\<rparr>) = ''500''"
    by code_simp
  note T = relay_error_status [OF relayed answer outside, unfolded code]
  have a: "status (reply (handler relay500 ?r initial)) = 502"
    by (rule T [THEN conjunct2, THEN conjunct1])
  have b: "written (reply (handler relay500 ?r initial)) =
     ''Error - Relay returned status: 500'' @ newline @ successBody"
    using T [THEN conjunct2, THEN conjunct2, THEN conjunct2, THEN conjunct1] by simp
  have c: "writerCalls (trace (handler relay500 ?r initial)) =
     [WriteHeaderCall 502, WriteCall (''Error - Relay returned status: 500'' @ newline),
      WriteCall successBody, WriteHeaderCall 200]"
    using T [THEN conjunct2, THEN conjunct2, THEN conjunct2, THEN conjunct2, THEN conjunct1]
    by simp
  have d: "status (reply (handler_server relay500 ?r initial)) = 502"
    by (rule T [THEN conjunct2, THEN conjunct2, THEN conjunct2, THEN conjunct2, THEN conjunct2,
                THEN conjunct2, THEN conjunct1])
  show ?thesis
    by (insert relayed a b c d, intro conjI; assumption)
qed

theorem relay_error_server_counterexample:
  "sent (handler_server relay500 (delivery ''POST'' sigContainer bodyContainer) initial) =
     [relayRequest relay500 (bytes_of_string bodyContainer)] \<and>
   clientDo relay500 (relayRequest relay500 (bytes_of_string bodyContainer)) =
     (Some \<lparr>StatusCode = 500\<rparr>, None) \<and>
   writerCalls (trace (handler_server relay500 (delivery ''POST'' sigContainer bodyContainer) initial)) =
     [WriteHeaderCall 502, WriteCall (''Error - Relay returned status: 500'' @ newline),
      WriteHeaderCall 200] \<and>
   written (reply (handler_server relay500 (delivery ''POST'' sigContainer bodyContainer) initial)) =
     ''Error - Relay returned status: 500'' @ newline"
proof -
  let ?r = "delivery ''POST'' sigContainer bodyContainer"
  let ?q = "relayRequest relay500 (bytes_of_string bodyContainer)"
  let ?ev = "\<lparr>Package = \<lparr>PackageType = ''CONTAINER''\<rparr>\<rparr>"
  have body: "fst (Body ?r) = bytes_of_string bodyContainer"
    by code_simp
  have present: "Header_Get (Header ?r) ''X-GitHub-Delivery'' \<noteq> []"
    "Header_Get (Header ?r) ''X-GitHub-Event'' \<noteq> []"
    by code_simp+
  have good: "verifySignature relay500 (Header_Get (Header ?r) ''X-Hub-Signature-256'') (fst (Body ?r))"
    by code_simp
  have decoded: "json_Unmarshal relay500 (fst (Body ?r)) = Inr ?ev"
    by code_simp
  have container: "PackageType (Package ?ev) = ''CONTAINER''"
    by simp
  have url: "urlParse relay500 (relayURL relay500)"
    by code_simp
  have answer: "clientDo relay500 (relayRequest relay500 (fst (Body ?r))) =
      (Some \<lparr>StatusCode = 500\<rparr>, None)"
    by (simp add: relay500_def)
  have code: "showInt (StatusCode \<lparr>StatusCode = 500\<rparr>) = ''500''"
    by code_simp
  note branch = handleRequest_server_response [OF good decoded container url answer, unfolded code]
  have a: "sent (handler_server relay500 ?r initial) = [?q]"
    unfolding handler_server_sent body [symmetric] using present good decoded url by simp
  have b: "writerCalls (trace (handler_server relay500 ?r initial)) =
     [WriteHeaderCall 502, WriteCall (''Error - Relay returned status: 500'' @ newline),
      WriteHeaderCall 200]"
    unfolding handler_server_delivery [OF present] branch
    by (simp add: trace_def writerCalls_append readEvents_quiet)
  have c: "written (reply (handler_server relay500 ?r initial)) =
     ''Error - Relay returned status: 500'' @ newline"
    unfolding handler_server_delivery [OF present] branch
    by (simp add: reply_def)
  show ?thesis
    by (insert a answer [unfolded body] b c, intro conjI; assumption)
qed

section \<open>Deliveries that are filtered out\<close>

lemma foldl_all_skipped:
  assumes "\<And>acc kv. kv \<in> set m \<Longrightarrow> f acc kv = acc"
  shows "foldl f a m = a"
  using assms by (induction m arbitrary: a) simp_all

lemma storeEvent_no_package:
  assumes "\<not> list_ex (\<lambda>kv. foldName (fst kv) = ''PACKAGE'') m"
  shows "storeEvent W (JObject m) (err, cur) = (err, cur)"
  unfolding storeEvent.simps fieldMatch_folded
  using assms by (intro foldl_all_skipped) (simp add: list_ex_iff)

lemma storePackage_no_package_type:
  assumes "\<not> list_ex (\<lambda>kv. foldName (fst kv) = ''PACKAGE_TYPE'') m"
  shows "storePackage W (JObject m) (err, cur) = (err, cur)"
  unfolding storePackage.simps fieldMatch_folded
  using assms by (intro foldl_all_skipped) (simp add: list_ex_iff)

lemma unmarshalValue_absent:
  "\<not> list_ex (\<lambda>kv. foldName (fst kv) = ''PACKAGE'') m \<Longrightarrow>
   unmarshalValue W (JObject m) = Inr zeroEvent"
  "\<not> list_ex (\<lambda>kv. foldName (fst kv) = ''PACKAGE_TYPE'') m \<Longrightarrow>
   unmarshalValue W (JObject [(''package'', JObject m)]) = Inr zeroEvent"
proof -
  show "\<not> list_ex (\<lambda>kv. foldName (fst kv) = ''PACKAGE'') m \<Longrightarrow>
        unmarshalValue W (JObject m) = Inr zeroEvent"
    by (simp add: unmarshalValue_def storeEvent_no_package del: storeEvent.simps)
  show "\<not> list_ex (\<lambda>kv. foldName (fst kv) = ''PACKAGE_TYPE'') m \<Longrightarrow>
        unmarshalValue W (JObject [(''package'', JObject m)]) = Inr zeroEvent"
    by (simp add: unmarshalValue_def storePackage_no_package_type fieldMatch_same zeroEvent_def
          del: storePackage.simps)
qed

text \<open>
  Claim C2, as amended. Take a request that is not a probe, has both delivery headers
  and a valid signature, and whose body \<open>json.Unmarshal\<close> decodes without error to a
  package type other than CONTAINER. Neither handler sends anything to the relay. The
  handler of src/unnamed/part_000 answers 204 with the header \<open>Message\<close> holding the
  line \<open>Filtered out package_type t! No forward to relay\<close> and with no body; the handler
  of src/github_webhook_filter_server.go answers 400 with that line as the plain-text
  body. A document with no member whose key folds to \<open>PACKAGE\<close>, or whose package
  has no member whose key folds to \<open>PACKAGE_TYPE\<close>, decodes to the empty package
  type and so is filtered out as well.
\<close>

theorem filtered_out:
  assumes "Method r \<noteq> ''HEAD''" and "Method r \<noteq> ''GET''"
    and "Header_Get (Header r) ''X-GitHub-Delivery'' \<noteq> []"
    and "Header_Get (Header r) ''X-GitHub-Event'' \<noteq> []"
    and "Header_Get (Header r) ''X-Hub-Signature-256'' = signatureFor W (fst (Body r))"
    and "json_Unmarshal W (fst (Body r)) = Inr ev"
    and "PackageType (Package ev) \<noteq> ''CONTAINER''"
  shows "fst (handler W r initial) = Returned \<and>
         reply (handler W r initial) =
           \<lparr>handlerHeader = [(''Message'', [''Filtered out package_type '' @ PackageType (Package ev)
                                                @ ''! No forward to relay''])],
            wroteHeader = True, status = 204,
            sentHeader = [(''Message'', [''Filtered out package_type '' @ PackageType (Package ev)
                                             @ ''! No forward to relay''])],
            written = []\<rparr> \<and>
         sent (handler W r initial) = [] \<and>
         fst (handler_server W r initial) = Returned \<and>
         reply (handler_server W r initial) =
           errorReply 400 (''Filtered out package_type '' @ PackageType (Package ev)
                             @ ''! No forward to relay'') \<and>
         sent (handler_server W r initial) = [] \<and>
         (\<forall>m. \<not> list_ex (\<lambda>kv. foldName (fst kv) = ''PACKAGE'') m \<longrightarrow>
              unmarshalValue W (JObject m) = Inr zeroEvent) \<and>
         (\<forall>m. \<not> list_ex (\<lambda>kv. foldName (fst kv) = ''PACKAGE_TYPE'') m \<longrightarrow>
              unmarshalValue W (JObject [(''package'', JObject m)]) = Inr zeroEvent) \<and>
         PackageType (Package zeroEvent) = []"
proof -
  have good: "verifySignature W (Header_Get (Header r) ''X-Hub-Signature-256'') (fst (Body r))"
    using assms(5) by (simp add: verifySignature_eq)
  have part000: "fst (handler W r initial) = Returned \<and>
         reply (handler W r initial) =
           \<lparr>handlerHeader = [(''Message'', [''Filtered out package_type '' @ PackageType (Package ev)
                                                @ ''! No forward to relay''])],
            wroteHeader = True, status = 204,
            sentHeader = [(''Message'', [''Filtered out package_type '' @ PackageType (Package ev)
                                             @ ''! No forward to relay''])],
            written = []\<rparr> \<and>
         sent (handler W r initial) = []"
    using handleRequest_filtered [OF good assms(6,7)]
    by (simp add: handler_delivery [OF assms(1-4)] reply_def sent_def forwards_append
          readEvents_quiet)
  have server: "fst (handler_server W r initial) = Returned \<and>
         reply (handler_server W r initial) =
           errorReply 400 (''Filtered out package_type '' @ PackageType (Package ev)
                             @ ''! No forward to relay'') \<and>
         sent (handler_server W r initial) = []"
    using handleRequest_server_filtered [OF good assms(6,7)]
    by (simp add: handler_server_delivery [OF assms(3,4)] reply_def sent_def forwards_append
          readEvents_quiet)
  have zero: "PackageType (Package zeroEvent) = []"
    by (simp add: zeroEvent_def)
  have absent: "\<forall>m. \<not> list_ex (\<lambda>kv. foldName (fst kv) = ''PACKAGE'') m \<longrightarrow>
              unmarshalValue W (JObject m) = Inr zeroEvent"
    and inner: "\<forall>m. \<not> list_ex (\<lambda>kv. foldName (fst kv) = ''PACKAGE_TYPE'') m \<longrightarrow>
              unmarshalValue W (JObject [(''package'', JObject m)]) = Inr zeroEvent"
    by (simp_all add: unmarshalValue_absent)
  show ?thesis
    by (insert part000 server absent inner zero, elim conjE, intro conjI; assumption)
qed

theorem filtered_out_witness:
  "reply (handler demoWorld (delivery ''POST'' sigMaven bodyMaven) initial) =
     \<lparr>handlerHeader = [(''Message'', [''Filtered out package_type MAVEN! No forward to relay''])],
      wroteHeader = True, status = 204,
      sentHeader = [(''Message'', [''Filtered out package_type MAVEN! No forward to relay''])],
      written = []\<rparr> \<and>
   sent (handler demoWorld (delivery ''POST'' sigMaven bodyMaven) initial) = [] \<and>
   reply (handler_server demoWorld (delivery ''POST'' sigMaven bodyMaven) initial) =
     errorReply 400 ''Filtered out package_type MAVEN! No forward to relay'' \<and>
   sent (handler_server demoWorld (delivery ''POST'' sigMaven bodyMaven) initial) = [] \<and>
   status (reply (handler demoWorld (delivery ''POST'' sigEmpty bodyEmpty) initial)) = 204 \<and>
   sentHeader (reply (handler demoWorld (delivery ''POST'' sigEmpty bodyEmpty) initial)) =
     [(''Message'', [''Filtered out package_type ! No forward to relay''])]"
proof -
  let ?r = "delivery ''POST'' sigMaven bodyMaven"
  let ?e = "delivery ''POST'' sigEmpty bodyEmpty"
  have nonprobe: "Method ?r \<noteq> ''HEAD''" "Method ?r \<noteq> ''GET''"
    by code_simp+
  have present: "Header_Get (Header ?r) ''X-GitHub-Delivery'' \<noteq> []"
    "Header_Get (Header ?r) ''X-GitHub-Event'' \<noteq> []"
    by code_simp+
  have signed: "Header_Get (Header ?r) ''X-Hub-Signature-256'' = signatureFor demoWorld (fst (Body ?r))"
    by code_simp
  have decoded: "json_Unmarshal demoWorld (fst (Body ?r)) = Inr \<lparr>Package = \<lparr>PackageType = ''MAVEN''\<rparr>\<rparr>"
    by code_simp
  have other: "PackageType (Package \<lparr>Package = \<lparr>PackageType = ''MAVEN''\<rparr>\<rparr>) \<noteq> ''CONTAINER''"
    by simp
  note T = filtered_out [OF nonprobe present signed decoded other]
  have nonprobe': "Method ?e \<noteq> ''HEAD''" "Method ?e \<noteq> ''GET''"
    by code_simp+
  have present': "Header_Get (Header ?e) ''X-GitHub-Delivery'' \<noteq> []"
    "Header_Get (Header ?e) ''X-GitHub-Event'' \<noteq> []"
    by code_simp+
  have signed': "Header_Get (Header ?e) ''X-Hub-Signature-256'' = signatureFor demoWorld (fst (Body ?e))"
    by code_simp
  have parsed': "parseJSON demoWorld (fst (Body ?e)) = Inr (JObject [])"
    by code_simp
  have none: "\<not> list_ex (\<lambda>kv. foldName (fst kv) = ''PACKAGE'') []"
    by simp
  have "unmarshalValue demoWorld (JObject []) = Inr zeroEvent"
    using T [THEN conjunct2, THEN conjunct2, THEN conjunct2, THEN conjunct2, THEN conjunct2,
             THEN conjunct2, THEN conjunct1, rule_format, OF none] .
  then have decoded': "json_Unmarshal demoWorld (fst (Body ?e)) = Inr zeroEvent"
    by (simp add: json_Unmarshal_def parsed')
  have other': "PackageType (Package zeroEvent) \<noteq> ''CONTAINER''"
    using T [THEN conjunct2, THEN conjunct2, THEN conjunct2, THEN conjunct2, THEN conjunct2,
             THEN conjunct2, THEN conjunct2, THEN conjunct2]
    by simp
  note T' = filtered_out [OF nonprobe' present' signed' decoded' other']
  have a: "reply (handler demoWorld ?r initial) =
     \<lparr>handlerHeader = [(''Message'', [''Filtered out package_type MAVEN! No forward to relay''])],
      wroteHeader = True, status = 204,
      sentHeader = [(''Message'', [''Filtered out package_type MAVEN! No forward to relay''])],
      written = []\<rparr>"
    using T [THEN conjunct2, THEN conjunct1] by simp
  have b: "reply (handler_server demoWorld ?r initial) =
     errorReply 400 ''Filtered out package_type MAVEN! No forward to relay''"
    using T [THEN conjunct2, THEN conjunct2, THEN conjunct2, THEN conjunct2, THEN conjunct1]
    by simp
  have c: "status (reply (handler demoWorld ?e initial)) = 204 \<and>
     sentHeader (reply (handler demoWorld ?e initial)) =
       [(''Message'', [''Filtered out package_type ! No forward to relay''])]"
    using T' [THEN conjunct2, THEN conjunct1] by (simp add: zeroEvent_def)
  from a T [THEN conjunct2, THEN conjunct2, THEN conjunct1] b
    T [THEN conjunct2, THEN conjunct2, THEN conjunct2, THEN conjunct2, THEN conjunct2, THEN conjunct1] c
  show ?thesis by (intro conjI) simp_all
qed

theorem filtered_out_counterexample:
  "Method (delivery ''POST'' sigMaven bodyMaven) = ''POST'' \<and>
   Header_Get (Header (delivery ''POST'' sigMaven bodyMaven)) ''X-Hub-Signature-256'' =
     signatureFor demoWorld (bytes_of_string bodyMaven) \<and>
   parseJSON demoWorld (bytes_of_string bodyMaven) =
     Inr (JObject [(''package'', JObject [(''package_type'', JString ''MAVEN'')])]) \<and>
   reply (handler_server demoWorld (delivery ''POST'' sigMaven bodyMaven) initial) =
     errorReply 400 ''Filtered out package_type MAVEN! No forward to relay'' \<and>
   Header_Get (Header (delivery ''POST'' sigNumber bodyNumber)) ''X-Hub-Signature-256'' =
     signatureFor demoWorld (bytes_of_string bodyNumber) \<and>
   parseJSON demoWorld (bytes_of_string bodyNumber) =
     Inr (JObject [(''package'', JObject [(''package_type'', JNumber ''7'')])]) \<and>
   status (reply (handler demoWorld (delivery ''POST'' sigNumber bodyNumber) initial)) = 400"
proof -
  let ?r = "delivery ''POST'' sigMaven bodyMaven"
  let ?n = "delivery ''POST'' sigNumber bodyNumber"
  let ?ev = "\<lparr>Package = \<lparr>PackageType = ''MAVEN''\<rparr>\<rparr>"
  have m: "Method ?r = ''POST''"
    by (simp add: delivery_def)
  have body: "fst (Body ?r) = bytes_of_string bodyMaven" "fst (Body ?n) = bytes_of_string bodyNumber"
    by code_simp+
  have signed: "Header_Get (Header ?r) ''X-Hub-Signature-256'' =
      signatureFor demoWorld (bytes_of_string bodyMaven)"
    "Header_Get (Header ?n) ''X-Hub-Signature-256'' =
      signatureFor demoWorld (bytes_of_string bodyNumber)"
    by code_simp+
  have parsed: "parseJSON demoWorld (bytes_of_string bodyMaven) =
     Inr (JObject [(''package'', JObject [(''package_type'', JString ''MAVEN'')])])"
    "parseJSON demoWorld (bytes_of_string bodyNumber) =
     Inr (JObject [(''package'', JObject [(''package_type'', JNumber ''7'')])])"
    by code_simp+
  have present: "Header_Get (Header ?r) ''X-GitHub-Delivery'' \<noteq> []"
    "Header_Get (Header ?r) ''X-GitHub-Event'' \<noteq> []"
    by code_simp+
  have good: "verifySignature demoWorld (Header_Get (Header ?r) ''X-Hub-Signature-256'') (fst (Body ?r))"
    unfolding body signed verifySignature_eq ..
  have decoded: "json_Unmarshal demoWorld (fst (Body ?r)) = Inr ?ev"
    by code_simp
  have other: "PackageType (Package ?ev) \<noteq> ''CONTAINER''"
    by simp
  have a: "reply (handler_server demoWorld ?r initial) =
     errorReply 400 ''Filtered out package_type MAVEN! No forward to relay''"
    unfolding handler_server_delivery [OF present]
      handleRequest_server_filtered [OF good decoded other]
    by (simp add: reply_def)
  have nonprobe: "Method ?n \<noteq> ''HEAD''" "Method ?n \<noteq> ''GET''"
    by code_simp+
  have present': "Header_Get (Header ?n) ''X-GitHub-Delivery'' \<noteq> []"
    "Header_Get (Header ?n) ''X-GitHub-Event'' \<noteq> []"
    by code_simp+
  have good': "verifySignature demoWorld (Header_Get (Header ?n) ''X-Hub-Signature-256'') (fst (Body ?n))"
    unfolding body signed verifySignature_eq ..
  have failed: "json_Unmarshal demoWorld (fst (Body ?n)) =
     Inl ''json: cannot unmarshal number into Go struct field .package.package_type of type string''"
    by code_simp
  have first: "handleRequest = handleRequest \<or> handleRequest = handleRequest_server"
    by simp
  have b: "status (reply (handler demoWorld ?n initial)) = 400"
    unfolding handler_delivery [OF nonprobe present']
      handleRequest_malformed [OF good' failed first]
    by (simp add: reply_def errorReply_def)
  show ?thesis
    by (insert m signed(1) parsed(1) a signed(2) parsed(2) b, intro conjI; assumption)
qed

section \<open>The two source files compared\<close>






end
